theory Spec2Isabelle
  imports Main "HOL-Library.Word"
begin

section \<open>JavaScript values used by the modules\<close>

text \<open>
  Strings are byte strings: a JavaScript string is represented by its UTF-8 encoding, so
  \<open>toUtf8Bytes\<close> only changes the type. For ASCII text (hexadecimal digits, JSON
  punctuation) a byte is a UTF-16 code unit and \<open>length\<close>, \<open>slice\<close> and
  \<open>padStart\<close> count the same things as in JavaScript.
\<close>

type_synonym byte = "8 word"
type_synonym bytes = "byte list"

definition toUtf8Bytes :: "string \<Rightarrow> bytes" where
  "toUtf8Bytes s = map of_char s"

definition dquote :: char where
  "dquote = CHR 0x22"

definition bslash :: char where
  "bslash = CHR 0x5C"

definition startsWith :: "string \<Rightarrow> string \<Rightarrow> bool" where
  "startsWith s p = (take (length p) s = p)"

definition slice_string :: "string \<Rightarrow> nat \<Rightarrow> nat \<Rightarrow> string" where
  "slice_string s i j = take (j - i) (drop i s)"

definition padStart :: "string \<Rightarrow> nat \<Rightarrow> char \<Rightarrow> string" where
  "padStart s n c = (if n \<le> length s then s else replicate (n - length s) c @ s)"

fun str_includes :: "string \<Rightarrow> string \<Rightarrow> bool" where
  "str_includes [] sub = (sub = [])"
| "str_includes (c # cs) sub = (take (length sub) (c # cs) = sub \<or> str_includes cs sub)"

subsection \<open>Hexadecimal digits\<close>

definition hexDigit :: "nat \<Rightarrow> char" where
  "hexDigit d = char_of (if d < 10 then 48 + d else 87 + d)"

definition digitValue :: "char \<Rightarrow> nat option" where
  "digitValue c =
     (let n = (of_char c :: nat) in
      if 48 \<le> n \<and> n \<le> 57 then Some (n - 48)
      else if 97 \<le> n \<and> n \<le> 122 then Some (n - 87)
      else if 65 \<le> n \<and> n \<le> 90 then Some (n - 55)
      else None)"

text \<open>A digit of the given radix: \<open>0-9\<close>, then letters of either case.\<close>

definition radixDigit :: "nat \<Rightarrow> char \<Rightarrow> nat option" where
  "radixDigit r c =
     (case digitValue c of
        None \<Rightarrow> None
      | Some d \<Rightarrow> if d < r then Some d else None)"

definition isHexDigit :: "char \<Rightarrow> bool" where
  "isHexDigit c = (radixDigit 16 c \<noteq> None)"

subsection \<open>Numbers\<close>

text \<open>
  \<open>parseInt(string, radix)\<close> of ECMAScript, with \<open>None\<close> for \<open>NaN\<close> and radix 0 for
  an absent radix. Leading white space is the ASCII white space; the result is the
  mathematical integer, which is the JavaScript number whenever it is below \<open>2^53\<close>.
\<close>

definition isWhiteSpace :: "char \<Rightarrow> bool" where
  "isWhiteSpace c = (of_char c \<in> {9, 10, 11, 12, 13, 32 :: nat})"

definition parseInt :: "string \<Rightarrow> nat \<Rightarrow> int option" where
  "parseInt inputString radix =
     (let s0 = dropWhile isWhiteSpace inputString;
          neg = (s0 \<noteq> [] \<and> hd s0 = CHR ''-'');
          s1 = (if s0 \<noteq> [] \<and> (hd s0 = CHR ''+'' \<or> hd s0 = CHR ''-'') then tl s0 else s0)
      in if radix \<noteq> 0 \<and> (radix < 2 \<or> 36 < radix) then None
         else
           let stripPrefix = (radix = 0 \<or> radix = 16);
               r0 = (if radix = 0 then 10 else radix);
               hasPrefix = (stripPrefix \<and> (take 2 s1 = ''0x'' \<or> take 2 s1 = ''0X''));
               s2 = (if hasPrefix then drop 2 s1 else s1);
               r = (if hasPrefix then 16 else r0);
               z = takeWhile (\<lambda>c. radixDigit r c \<noteq> None) s2
           in if z = [] then None
              else
                let mathInt = foldl (\<lambda>acc c. acc * int r + int (the (radixDigit r c))) 0 z
                in Some (if neg then - mathInt else mathInt))"

function digits10 :: "nat \<Rightarrow> string" where
  "digits10 n = (if n < 10 then [hexDigit n] else digits10 (n div 10) @ [hexDigit (n mod 10)])"
  by pat_completeness auto
termination
  by (relation "measure id") auto

declare digits10.simps [simp del]

text \<open>\<open>Number.prototype.toString\<close> on an integer below \<open>10^21\<close> in magnitude.\<close>

definition Number_toString :: "int \<Rightarrow> string" where
  "Number_toString i = (if i < 0 then CHR ''-'' # digits10 (nat (- i)) else digits10 (nat i))"

subsection \<open>JSON\<close>

datatype json =
    JNull
  | JBool bool
  | JNum int
  | JStr string
  | JArr "json list"
  | JObj "(string \<times> json) list"

fun join :: "string \<Rightarrow> string list \<Rightarrow> string" where
  "join sep [] = []"
| "join sep [x] = x"
| "join sep (x # y # ys) = x @ sep @ join sep (y # ys)"

text \<open>
  \<open>QuoteJSONString\<close>: the quotation mark, the backslash and the control characters are
  escaped, every other byte is copied.
\<close>

definition json_escape :: "char \<Rightarrow> string" where
  "json_escape c =
     (let n = (of_char c :: nat) in
      if n = 8 then [bslash, CHR ''b'']
      else if n = 9 then [bslash, CHR ''t'']
      else if n = 10 then [bslash, CHR ''n'']
      else if n = 12 then [bslash, CHR ''f'']
      else if n = 13 then [bslash, CHR ''r'']
      else if n = 34 then [bslash, dquote]
      else if n = 92 then [bslash, bslash]
      else if n < 32 then bslash # ''u00'' @ [hexDigit (n div 16), hexDigit (n mod 16)]
      else [c])"

definition QuoteJSONString :: "string \<Rightarrow> string" where
  "QuoteJSONString s = dquote # concat (map json_escape s) @ [dquote]"

fun JSON_stringify :: "json \<Rightarrow> string" where
  "JSON_stringify JNull = ''null''"
| "JSON_stringify (JBool b) = (if b then ''true'' else ''false'')"
| "JSON_stringify (JNum n) = Number_toString n"
| "JSON_stringify (JStr s) = QuoteJSONString s"
| "JSON_stringify (JArr xs) = ''['' @ join '','' (map JSON_stringify xs) @ '']''"
| "JSON_stringify (JObj kvs) =
     ''{'' @ join '','' (map (\<lambda>(k, v). QuoteJSONString k @ '':'' @ JSON_stringify v) kvs) @ ''}''"

section \<open>The hashing library (ethers)\<close>

text \<open>
  The Keccak-256 permutation belongs to the library, not to the repository: it is the
  parameter \<open>K\<close>, from a byte string to a 256-bit digest. The functions below are the
  library's wrappers around it, which work on byte arrays and on \<open>0x\<close>-prefixed
  hexadecimal text. \<open>None\<close> is a thrown exception.
\<close>

type_synonym keccak = "bytes \<Rightarrow> 256 word"

datatype BytesLike = U8 bytes | Hex string

definition digest :: "256 word \<Rightarrow> bytes" where
  "digest w = map (\<lambda>i. ucast (drop_bit (8 * (31 - i)) w)) [0..<32]"

definition hexlify :: "bytes \<Rightarrow> string" where
  "hexlify bs =
     ''0x'' @ concat (map (\<lambda>b. [hexDigit (unat b div 16), hexDigit (unat b mod 16)]) bs)"

fun hexPairs :: "string \<Rightarrow> bytes option" where
  "hexPairs [] = Some []"
| "hexPairs [c] = None"
| "hexPairs (c1 # c2 # cs) =
     (case (radixDigit 16 c1, radixDigit 16 c2, hexPairs cs) of
        (Some h, Some l, Some rest) \<Rightarrow> Some (of_nat (16 * h + l) # rest)
      | _ \<Rightarrow> None)"

definition getBytes :: "BytesLike \<Rightarrow> bytes option" where
  "getBytes v =
     (case v of
        U8 bs \<Rightarrow> Some bs
      | Hex s \<Rightarrow> if startsWith s ''0x'' then hexPairs (drop 2 s) else None)"

definition keccak256 :: "keccak \<Rightarrow> BytesLike \<Rightarrow> string option" where
  "keccak256 K data = map_option (\<lambda>bs. hexlify (digest (K bs))) (getBytes data)"

text \<open>
  \<open>solidityPacked\<close> for the one Solidity type the repository packs, \<open>bytes32\<close>: each
  value must be 32 bytes of hexadecimal text, and the result is their concatenation as
  hexadecimal text.
\<close>

definition pack :: "string \<Rightarrow> string \<Rightarrow> bytes option" where
  "pack type v =
     (if type = ''bytes32'' then
        (case getBytes (Hex v) of
           None \<Rightarrow> None
         | Some bs \<Rightarrow> if length bs = 32 then Some bs else None)
      else None)"

fun packAll :: "string list \<Rightarrow> string list \<Rightarrow> bytes option" where
  "packAll [] [] = Some []"
| "packAll (t # ts) (v # vs) =
     (case pack t v of
        None \<Rightarrow> None
      | Some bs \<Rightarrow> map_option (\<lambda>rest. bs @ rest) (packAll ts vs))"
| "packAll _ _ = None"

definition solidityPacked :: "string list \<Rightarrow> string list \<Rightarrow> string option" where
  "solidityPacked types vals = map_option hexlify (packAll types vals)"

section \<open>lib/zkProofs.ts\<close>

record Medication =
  med_name :: string
  med_dosage :: string
  med_duration :: string
  med_additionalInstructions :: string

record AnonymousPrescriptionData =
  apd_medications :: "Medication list"
  apd_diagnosis :: string
  apd_doctorId :: string
  apd_secretKey :: string

record ZKProof =
  zk_a :: "string \<times> string"
  zk_b :: "(string \<times> string) \<times> (string \<times> string)"
  zk_c :: "string \<times> string"

record ZKProofData =
  zk_proof :: ZKProof
  zk_inputs :: "string list"

definition medication_json :: "Medication \<Rightarrow> json" where
  "medication_json m =
     JObj [(''name'', JStr (med_name m)),
           (''dosage'', JStr (med_dosage m)),
           (''duration'', JStr (med_duration m)),
           (''additionalInstructions'', JStr (med_additionalInstructions m))]"

text \<open>
  The object that \<open>generateCommitment\<close> serialises. \<open>now\<close> is the reading of
  \<open>Date.now()\<close>, in milliseconds; \<open>Math.floor(now / 1000)\<close> is \<open>now div 1000\<close>.
\<close>

definition commitment_object :: "int \<Rightarrow> AnonymousPrescriptionData \<Rightarrow> json" where
  "commitment_object now prescriptionData =
     JObj [(''medications'', JArr (map medication_json (apd_medications prescriptionData))),
           (''diagnosis'', JStr (apd_diagnosis prescriptionData)),
           (''doctorId'', JStr (apd_doctorId prescriptionData)),
           (''timestamp'', JNum (now div 1000))]"

definition generateCommitment ::
  "keccak \<Rightarrow> int \<Rightarrow> AnonymousPrescriptionData \<Rightarrow> string option" where
  "generateCommitment K now prescriptionData =
     (let dataString = JSON_stringify (commitment_object now prescriptionData) in
      case keccak256 K (U8 (toUtf8Bytes dataString)) of
        None \<Rightarrow> None
      | Some prescriptionHash \<Rightarrow>
          (case keccak256 K (U8 (toUtf8Bytes (apd_secretKey prescriptionData))) of
             None \<Rightarrow> None
           | Some secretHash \<Rightarrow>
               (case solidityPacked [''bytes32'', ''bytes32''] [prescriptionHash, secretHash] of
                  None \<Rightarrow> None
                | Some packed \<Rightarrow> keccak256 K (Hex packed))))"

text \<open>The loop \<open>for (let i = 0; i < 64; i += 8)\<close> of \<open>hexToU32Array\<close>.\<close>

function chunks_loop :: "string \<Rightarrow> nat \<Rightarrow> int option list \<Rightarrow> int option list" where
  "chunks_loop paddedHex i chunks =
     (if i < 64
      then chunks_loop paddedHex (i + 8) (chunks @ [parseInt (slice_string paddedHex i (i + 8)) 16])
      else chunks)"
  by pat_completeness auto
termination
  by (relation "measure (\<lambda>(p, i, c). 64 - i)") auto

declare chunks_loop.simps [simp del]

definition hexToU32Array :: "string \<Rightarrow> int option list" where
  "hexToU32Array hex =
     (let cleanHex = (if startsWith hex ''0x'' then drop 2 hex else hex);
          paddedHex = padStart cleanHex 64 CHR ''0''
      in chunks_loop paddedHex 0 [])"

definition mockProof :: ZKProof where
  "mockProof =
     \<lparr>zk_a = (''0x1234'', ''0x5678''),
      zk_b = ((''0xabcd'', ''0xef01''), (''0x2345'', ''0x6789'')),
      zk_c = (''0x9abc'', ''0xdef0'')\<rparr>"

text \<open>
  The two asynchronous functions wait on a timer and then resolve; the value they resolve
  to is what is modelled.
\<close>

definition generateZKProof ::
  "keccak \<Rightarrow> int \<Rightarrow> AnonymousPrescriptionData \<Rightarrow> ZKProofData option" where
  "generateZKProof K now prescriptionData =
     map_option (\<lambda>commitment. \<lparr>zk_proof = mockProof, zk_inputs = [commitment]\<rparr>)
       (generateCommitment K now prescriptionData)"

definition verifyZKProof :: "ZKProofData \<Rightarrow> bool" where
  "verifyZKProof p = True"

definition parseCommitmentForContract :: "string \<Rightarrow> int option list" where
  "parseCommitmentForContract commitment = hexToU32Array commitment"

section \<open>The database, the session and the runtime\<close>

text \<open>
  The route handlers talk to a relational database through an ORM. The tables are lists of
  rows, and a query is a function of the tables. \<open>findFirst\<close> and \<open>findUnique\<close> return the
  first matching row, \<open>create\<close> appends a row, and \<open>update\<close> of a row that does not exist
  throws. A failure of the database itself (a lost connection, a constraint declared in the
  schema) is outside the model; it would reach the \<open>catch\<close> clause of the handler.

  A date is its time value in milliseconds since the epoch. The text that
  \<open>toISOString\<close> produces denotes that instant with millisecond precision, so a date
  rendered in a response is represented by the instant too.
\<close>

datatype AppointmentStatus = PENDING | CONFIRMED | CANCELED

record SessionUser =
  su_id :: string

record UserRow =
  usr_id :: string
  usr_name :: "string option"
  usr_email :: "string option"
  usr_role :: string

record PatientRow =
  pat_id :: string
  pat_userId :: string
  pat_gender :: string
  pat_dateOfBirth :: int
  pat_bloodType :: string
  pat_chronicDiseases :: "string list"
  pat_emergencyContact :: string
  pat_blockId :: string

record DoctorRow =
  doc_id :: string
  doc_userId :: string
  doc_blockId :: string
  doc_verified :: bool
  doc_specialization :: string
  doc_licenseNumber :: string

record AppointmentRow =
  app_id :: string
  app_doctorId :: string
  app_patientId :: string
  app_startTime :: int
  app_endTime :: int
  app_status :: AppointmentStatus

record PrescriptionRow =
  pr_id :: string
  pr_doctorId :: string
  pr_patientId :: string
  pr_issueDate :: int
  pr_validTill :: int
  pr_medications :: "Medication list"

record Database =
  db_users :: "UserRow list"
  db_patients :: "PatientRow list"
  db_doctors :: "DoctorRow list"
  db_appointments :: "AppointmentRow list"
  db_prescriptions :: "PrescriptionRow list"

text \<open>
  What a handler reads from outside the request and the database: the clock, the
  schema library's test for ISO date-time text, the \<open>Date\<close> constructor on text
  (\<open>None\<close> is \<open>Invalid Date\<close>), the identifiers and the default timestamp that the
  database gives to a new row, and the text built from \<open>Math.random()\<close>.
\<close>

record Runtime =
  rt_now :: int
  rt_is_datetime :: "string \<Rightarrow> bool"
  rt_Date_parse :: "string \<Rightarrow> int option"
  rt_new_patient_id :: string
  rt_new_appointment_id :: string
  rt_new_prescription_id :: string
  rt_db_now :: int
  rt_random_blockId :: string

text \<open>
  A request, as the handlers see it: the result of \<open>getCurrentUser()\<close>, the result of
  \<open>req.json()\<close> (\<open>None\<close> when the body is not JSON and the call throws; a parsed object
  has distinct keys), and the query parameter \<open>role\<close>.
\<close>

record Request =
  req_user :: "SessionUser option"
  req_json :: "json option"
  req_role :: "string option"

text \<open>A prescription as it appears in a response, from the database or from the chain.\<close>

record PrescriptionView =
  pv_id :: string
  pv_issueDate :: int
  pv_validTill :: int
  pv_doctorId :: "string option"
  pv_patientId :: "string option"
  pv_patientName :: "string option"
  pv_doctorName :: "string option"
  pv_specialization :: string
  pv_licenseNumber :: string
  pv_medications :: "Medication list"
  pv_blockchainOnly :: bool

datatype ResBody =
    NoBody
  | Text string
  | ValidationFailed
  | ErrorMessage string
  | AppointmentCreated AppointmentRow
  | PrescriptionCreated PrescriptionView
  | PrescriptionList "PrescriptionView list"

record Response =
  res_status :: nat
  res_body :: ResBody

text \<open>\<open>TimeClip\<close>: a time value beyond 8.64e15 milliseconds is \<open>Invalid Date\<close>.\<close>

definition TimeClip :: "int \<Rightarrow> int option" where
  "TimeClip t = (if \<bar>t\<bar> \<le> 8640000000000000 then Some t else None)"

definition truthy :: "string \<Rightarrow> bool" where
  "truthy s = (s \<noteq> [])"

definition find_patient_by_user :: "Database \<Rightarrow> string \<Rightarrow> PatientRow option" where
  "find_patient_by_user db userId = find (\<lambda>p. pat_userId p = userId) (db_patients db)"

definition find_doctor_by_user :: "Database \<Rightarrow> string \<Rightarrow> DoctorRow option" where
  "find_doctor_by_user db userId = find (\<lambda>d. doc_userId d = userId) (db_doctors db)"

definition find_doctor_by_id :: "Database \<Rightarrow> string \<Rightarrow> DoctorRow option" where
  "find_doctor_by_id db doctorId = find (\<lambda>d. doc_id d = doctorId) (db_doctors db)"

definition user_name_of :: "Database \<Rightarrow> string \<Rightarrow> string option" where
  "user_name_of db userId =
     (case find (\<lambda>u. usr_id u = userId) (db_users db) of
        None \<Rightarrow> None
      | Some u \<Rightarrow> usr_name u)"

text \<open>\<open>db.user.update({ where: { id }, data: { role } })\<close>; \<open>None\<close> when it throws.\<close>

definition update_user_role :: "Database \<Rightarrow> string \<Rightarrow> string \<Rightarrow> Database option" where
  "update_user_role db userId role =
     (case find (\<lambda>u. usr_id u = userId) (db_users db) of
        None \<Rightarrow> None
      | Some found \<Rightarrow>
          Some (db\<lparr>db_users :=
                  map (\<lambda>u. if usr_id u = userId then u\<lparr>usr_role := role\<rparr> else u)
                    (db_users db)\<rparr>))"

section \<open>app/api/appointments/route.ts\<close>

record AppointmentBody =
  ab_doctorId :: string
  ab_startTime :: string
  ab_endTime :: string

text \<open>\<open>appointmentSchema.parse\<close>; \<open>None\<close> is a \<open>ZodError\<close>.\<close>

definition appointmentSchema :: "(string \<Rightarrow> bool) \<Rightarrow> json \<Rightarrow> AppointmentBody option" where
  "appointmentSchema is_datetime j =
     (case j of
        JObj kvs \<Rightarrow>
          (case (map_of kvs ''doctorId'', map_of kvs ''startTime'', map_of kvs ''endTime'') of
             (Some (JStr d), Some (JStr s), Some (JStr e)) \<Rightarrow>
               if is_datetime s \<and> is_datetime e
               then Some \<lparr>ab_doctorId = d, ab_startTime = s, ab_endTime = e\<rparr>
               else None
           | _ \<Rightarrow> None)
      | _ \<Rightarrow> None)"

text \<open>The \<open>where\<close> clause of the query for a conflicting appointment.\<close>

definition conflicting :: "string \<Rightarrow> string \<Rightarrow> int \<Rightarrow> int \<Rightarrow> AppointmentRow \<Rightarrow> bool" where
  "conflicting doctorId patientId startDateTime endDateTime a =
     ((app_doctorId a = doctorId
         \<and> app_startTime a \<le> endDateTime
         \<and> app_endTime a \<ge> startDateTime
         \<and> (app_status a = PENDING \<or> app_status a = CONFIRMED))
    \<or> (app_patientId a = patientId
         \<and> app_startTime a \<le> endDateTime
         \<and> app_endTime a \<ge> startDateTime
         \<and> (app_status a = PENDING \<or> app_status a = CONFIRMED)))"

definition default_patient :: "Runtime \<Rightarrow> SessionUser \<Rightarrow> PatientRow" where
  "default_patient rt user =
     \<lparr>pat_id = rt_new_patient_id rt,
      pat_userId = su_id user,
      pat_gender = ''Not specified'',
      pat_dateOfBirth = 631152000000,
      pat_bloodType = ''Unknown'',
      pat_chronicDiseases = [],
      pat_emergencyContact = ''Not provided'',
      pat_blockId = rt_random_blockId rt\<rparr>"

definition server_error :: Response where
  "server_error = \<lparr>res_status = 500, res_body = ErrorMessage ''Internal server error''\<rparr>"

text \<open>
  The handler after the patient profile is known. The query on \<open>req_access\<close> that the
  source makes here only reads, and its result is not used. A date that is
  \<open>Invalid Date\<close> makes the query for a conflicting appointment throw.
\<close>

definition book_appointment ::
  "Runtime \<Rightarrow> Database \<Rightarrow> AppointmentBody \<Rightarrow> PatientRow \<Rightarrow> Response \<times> Database" where
  "book_appointment rt db body patient =
     (case find_doctor_by_id db (ab_doctorId body) of
        None \<Rightarrow> (\<lparr>res_status = 404, res_body = Text ''Doctor not found''\<rparr>, db)
      | Some doctor \<Rightarrow>
          (case (rt_Date_parse rt (ab_startTime body), rt_Date_parse rt (ab_endTime body)) of
             (Some startDateTime, Some endDateTime) \<Rightarrow>
               (case find (conflicting (ab_doctorId body) (pat_id patient) startDateTime endDateTime)
                       (db_appointments db) of
                  Some conflictingAppointment \<Rightarrow>
                    (\<lparr>res_status = 409, res_body = Text ''Time slot not available''\<rparr>, db)
                | None \<Rightarrow>
                    (let appointment =
                       \<lparr>app_id = rt_new_appointment_id rt,
                        app_doctorId = ab_doctorId body,
                        app_patientId = pat_id patient,
                        app_startTime = startDateTime,
                        app_endTime = endDateTime,
                        app_status = PENDING\<rparr>
                     in (\<lparr>res_status = 200, res_body = AppointmentCreated appointment\<rparr>,
                         db\<lparr>db_appointments := db_appointments db @ [appointment]\<rparr>)))
           | _ \<Rightarrow> (server_error, db)))"

definition POST_appointments :: "Runtime \<Rightarrow> Database \<Rightarrow> Request \<Rightarrow> Response \<times> Database" where
  "POST_appointments rt db req =
     (case req_user req of
        None \<Rightarrow> (\<lparr>res_status = 401, res_body = NoBody\<rparr>, db)
      | Some user \<Rightarrow>
          (case req_json req of
             None \<Rightarrow> (server_error, db)
           | Some json \<Rightarrow>
               (case appointmentSchema (rt_is_datetime rt) json of
                  None \<Rightarrow> (\<lparr>res_status = 400, res_body = ValidationFailed\<rparr>, db)
                | Some body \<Rightarrow>
                    (case find_patient_by_user db (su_id user) of
                       Some patient \<Rightarrow> book_appointment rt db body patient
                     | None \<Rightarrow>
                         (let patient = default_patient rt user;
                              db1 = db\<lparr>db_patients := db_patients db @ [patient]\<rparr>
                          in case update_user_role db1 (su_id user) ''patient'' of
                               None \<Rightarrow> (server_error, db1)
                             | Some db2 \<Rightarrow> book_appointment rt db2 body patient)))))"

section \<open>The medical contract, read through the provider\<close>

text \<open>
  A call to the contract either returns or throws. The getter of a Solidity mapping
  returns the zero record for a key that was never written.
\<close>

datatype 'a call = Throws | Returns 'a

record ChainPrescription =
  cp_id :: nat
  cp_doctorAddress :: string
  cp_patientAddress :: string
  cp_issueDate :: nat

record ChainDoctor =
  cd_name :: string
  cd_speciality :: string

record ChainPatient =
  cpt_name :: string

record Contract =
  c_prescriptionCounter :: "nat call"
  c_prescriptions :: "nat \<Rightarrow> ChainPrescription call"
  c_doctors :: "string \<Rightarrow> ChainDoctor call"
  c_patients :: "string \<Rightarrow> ChainPatient call"

definition toLowerCase :: "string \<Rightarrow> string" where
  "toLowerCase s =
     map (\<lambda>c. let n = (of_char c :: nat) in if 65 \<le> n \<and> n \<le> 90 then char_of (n + 32) else c) s"

definition or_default :: "string \<Rightarrow> string \<Rightarrow> string" where
  "or_default s d = (if truthy s then s else d)"

text \<open>
  The object built for a prescription read from the chain. \<open>issueDate\<close> is in seconds;
  \<open>Number(issueDate) * 1000\<close> is exact whenever it is a valid time value, and
  \<open>toISOString\<close> throws on \<open>Invalid Date\<close> (\<open>None\<close>). The field \<open>issueDate\<close> is
  evaluated before \<open>validTill\<close>.
\<close>

definition chain_view ::
  "ChainPrescription \<Rightarrow> ChainDoctor \<Rightarrow> ChainPatient \<Rightarrow> PrescriptionView option" where
  "chain_view prescriptionData doctorInfo patientInfo =
     (case TimeClip (int (cp_issueDate prescriptionData) * 1000) of
        None \<Rightarrow> None
      | Some issued \<Rightarrow>
          (case TimeClip (int (cp_issueDate prescriptionData) * 1000 + 30 * 24 * 60 * 60 * 1000) of
             None \<Rightarrow> None
           | Some valid \<Rightarrow>
               Some \<lparr>pv_id = digits10 (cp_id prescriptionData),
                     pv_issueDate = issued,
                     pv_validTill = valid,
                     pv_doctorId = None,
                     pv_patientId = None,
                     pv_patientName = Some (or_default (cpt_name patientInfo) ''Unknown Patient''),
                     pv_doctorName = Some (or_default (cd_name doctorInfo) ''Unknown Doctor''),
                     pv_specialization = or_default (cd_speciality doctorInfo) [],
                     pv_licenseNumber = [],
                     pv_medications = [],
                     pv_blockchainOnly = True\<rparr>))"

section \<open>app/api/prescriptions/route.ts\<close>

text \<open>
  The body of the loop of \<open>fetchAllPrescriptionsFromBlockchain\<close> for the index \<open>i\<close>:
  the entries it pushes (none or one). An exception inside the body is caught there and
  the loop goes on.
\<close>

definition fetch_entry :: "Contract \<Rightarrow> string option \<Rightarrow> bool \<Rightarrow> nat \<Rightarrow> PrescriptionView list" where
  "fetch_entry contract userAddress isDoctor i =
     (case c_prescriptions contract i of
        Throws \<Rightarrow> []
      | Returns prescriptionData \<Rightarrow>
          if cp_id prescriptionData = 0 then []
          else
            let given = (case userAddress of None \<Rightarrow> False | Some a \<Rightarrow> truthy a);
                address = (case userAddress of None \<Rightarrow> [] | Some a \<Rightarrow> a);
                isTheDoctor =
                  (toLowerCase (cp_doctorAddress prescriptionData) = toLowerCase address);
                isThePatient =
                  (toLowerCase (cp_patientAddress prescriptionData) = toLowerCase address)
            in if given \<and> isDoctor \<and> \<not> isTheDoctor then []
               else if given \<and> \<not> isDoctor \<and> \<not> isThePatient then []
               else
                 let hasAccess = (if given then isTheDoctor \<or> isThePatient else True)
                 in if hasAccess then
                      (case (c_doctors contract (cp_doctorAddress prescriptionData),
                             c_patients contract (cp_patientAddress prescriptionData)) of
                         (Returns doctorInfo, Returns patientInfo) \<Rightarrow>
                           (case chain_view prescriptionData doctorInfo patientInfo of
                              None \<Rightarrow> []
                            | Some v \<Rightarrow> [v])
                       | _ \<Rightarrow> [])
                    else [])"

function fetch_loop ::
  "Contract \<Rightarrow> string option \<Rightarrow> bool \<Rightarrow> nat \<Rightarrow> nat \<Rightarrow> PrescriptionView list
     \<Rightarrow> PrescriptionView list" where
  "fetch_loop contract userAddress isDoctor counter i prescriptions =
     (if i \<le> counter
      then fetch_loop contract userAddress isDoctor counter (i + 1)
             (prescriptions @ fetch_entry contract userAddress isDoctor i)
      else prescriptions)"
  by pat_completeness auto
termination
  by (relation "measure (\<lambda>(c, u, d, counter, i, ps). Suc counter - i)") auto

declare fetch_loop.simps [simp del]

text \<open>\<open>getMedicalContract(false)\<close> is the first argument: it may throw as well.\<close>

definition fetchAllPrescriptionsFromBlockchain ::
  "Contract call \<Rightarrow> string option \<Rightarrow> bool \<Rightarrow> PrescriptionView list" where
  "fetchAllPrescriptionsFromBlockchain provider userAddress isDoctor =
     (case provider of
        Throws \<Rightarrow> []
      | Returns contract \<Rightarrow>
          (case c_prescriptionCounter contract of
             Throws \<Rightarrow> []
           | Returns prescriptionCounter \<Rightarrow>
               fetch_loop contract userAddress isDoctor prescriptionCounter 1 []))"

text \<open>
  A row of the prescription table with the relations that the queries include: the
  names come from the user rows of the patient and of the doctor.
\<close>

definition db_view :: "Database \<Rightarrow> PrescriptionRow \<Rightarrow> PrescriptionView" where
  "db_view db p =
     (let patient = find (\<lambda>x. pat_id x = pr_patientId p) (db_patients db);
          doctor = find (\<lambda>x. doc_id x = pr_doctorId p) (db_doctors db)
      in \<lparr>pv_id = pr_id p,
          pv_issueDate = pr_issueDate p,
          pv_validTill = pr_validTill p,
          pv_doctorId = Some (pr_doctorId p),
          pv_patientId = Some (pr_patientId p),
          pv_patientName =
            (case patient of None \<Rightarrow> None | Some x \<Rightarrow> user_name_of db (pat_userId x)),
          pv_doctorName =
            (case doctor of None \<Rightarrow> None | Some x \<Rightarrow> user_name_of db (doc_userId x)),
          pv_specialization = (case doctor of None \<Rightarrow> [] | Some x \<Rightarrow> doc_specialization x),
          pv_licenseNumber = (case doctor of None \<Rightarrow> [] | Some x \<Rightarrow> doc_licenseNumber x),
          pv_medications = pr_medications p,
          pv_blockchainOnly = False\<rparr>)"

text \<open>
  \<open>orderBy: { issueDate: 'desc' }\<close> and the final
  \<open>sort((a, b) => new Date(b.issueDate).getTime() - new Date(a.issueDate).getTime())\<close>:
  a stable sort, latest first.
\<close>

definition sort_latest_first :: "PrescriptionView list \<Rightarrow> PrescriptionView list" where
  "sort_latest_first ps = sort_key (\<lambda>p. - pv_issueDate p) ps"

definition findMany_by_doctor :: "Database \<Rightarrow> string \<Rightarrow> PrescriptionView list" where
  "findMany_by_doctor db doctorId =
     sort_latest_first (map (db_view db) (filter (\<lambda>p. pr_doctorId p = doctorId) (db_prescriptions db)))"

definition findMany_by_patient :: "Database \<Rightarrow> string \<Rightarrow> PrescriptionView list" where
  "findMany_by_patient db patientId =
     sort_latest_first (map (db_view db) (filter (\<lambda>p. pr_patientId p = patientId) (db_prescriptions db)))"

text \<open>
  The JavaScript \<open>Map\<close>, as the list of its entries in insertion order: \<open>set\<close> on a key
  that is present replaces the value in place, \<open>set\<close> on a new key appends.
\<close>

type_synonym prescription_map = "(string \<times> PrescriptionView) list"

fun Map_set :: "prescription_map \<Rightarrow> string \<Rightarrow> PrescriptionView \<Rightarrow> prescription_map" where
  "Map_set [] k v = [(k, v)]"
| "Map_set ((k', v') # m) k v = (if k' = k then (k, v) # m else (k', v') # Map_set m k v)"

definition Map_has :: "prescription_map \<Rightarrow> string \<Rightarrow> bool" where
  "Map_has m k = (map_of m k \<noteq> None)"

definition Map_values :: "prescription_map \<Rightarrow> PrescriptionView list" where
  "Map_values m = map snd m"

text \<open>The two \<open>forEach\<close> loops that fill the map, and the array made from its values.\<close>

definition combine :: "PrescriptionView list \<Rightarrow> PrescriptionView list \<Rightarrow> PrescriptionView list" where
  "combine dbPrescriptions blockchainPrescriptions =
     (let combined0 = foldl (\<lambda>combined p. Map_set combined (pv_id p) p) [] dbPrescriptions;
          combined1 = foldl (\<lambda>combined p. if \<not> Map_has combined (pv_id p)
                                            then Map_set combined (pv_id p) p else combined)
                        combined0 blockchainPrescriptions
      in Map_values combined1)"

text \<open>\<open>searchParams.get("role") || "patient"\<close>\<close>

definition requested_role :: "Request \<Rightarrow> string" where
  "requested_role req =
     (case req_role req of
        None \<Rightarrow> ''patient''
      | Some r \<Rightarrow> if truthy r then r else ''patient'')"

definition GET_prescriptions :: "Contract call \<Rightarrow> Database \<Rightarrow> Request \<Rightarrow> Response" where
  "GET_prescriptions provider db req =
     (case req_user req of
        None \<Rightarrow> \<lparr>res_status = 401, res_body = Text ''Unauthorized''\<rparr>
      | Some user \<Rightarrow>
          let role = requested_role req
          in if role = ''doctor'' then
               (case find_doctor_by_user db (su_id user) of
                  None \<Rightarrow> \<lparr>res_status = 404, res_body = Text ''Doctor not found''\<rparr>
                | Some doctor \<Rightarrow>
                    let dbPrescriptions = findMany_by_doctor db (doc_id doctor);
                        blockchainPrescriptions =
                          (if truthy (doc_blockId doctor)
                           then fetchAllPrescriptionsFromBlockchain provider
                                  (Some (doc_blockId doctor)) True
                           else [])
                    in \<lparr>res_status = 200,
                        res_body = PrescriptionList
                          (sort_latest_first (combine dbPrescriptions blockchainPrescriptions))\<rparr>)
             else
               (let dbPrescriptions =
                      (case find_patient_by_user db (su_id user) of
                         None \<Rightarrow> []
                       | Some patient \<Rightarrow> findMany_by_patient db (pat_id patient));
                    blockchainPrescriptions =
                      fetchAllPrescriptionsFromBlockchain provider None False
                in \<lparr>res_status = 200,
                    res_body = PrescriptionList
                      (sort_latest_first (combine dbPrescriptions blockchainPrescriptions))\<rparr>))"

record MedicationInput =
  mi_name :: string
  mi_dosage :: string
  mi_duration :: string
  mi_additionalInstructions :: "string option"

record PrescriptionBody =
  pb_patientId :: string
  pb_medications :: "MedicationInput list"
  pb_validTill :: "string option"
  pb_blockchainTxHash :: "string option"

text \<open>
  The schemas of the schema library. \<open>None\<close> is a \<open>ZodError\<close>. An optional string is
  absent, or a string; any other value, \<open>null\<close> included, is an error.
\<close>

definition nonempty_string :: "json option \<Rightarrow> string option" where
  "nonempty_string v = (case v of Some (JStr s) \<Rightarrow> if 1 \<le> length s then Some s else None | _ \<Rightarrow> None)"

definition optional_string :: "(string \<Rightarrow> bool) \<Rightarrow> json option \<Rightarrow> string option option" where
  "optional_string ok v =
     (case v of
        None \<Rightarrow> Some None
      | Some (JStr s) \<Rightarrow> if ok s then Some (Some s) else None
      | Some _ \<Rightarrow> None)"

definition medicationSchema :: "json \<Rightarrow> MedicationInput option" where
  "medicationSchema j =
     (case j of
        JObj kvs \<Rightarrow>
          (case (nonempty_string (map_of kvs ''name''),
                 nonempty_string (map_of kvs ''dosage''),
                 nonempty_string (map_of kvs ''duration''),
                 optional_string (\<lambda>s. True) (map_of kvs ''additionalInstructions'')) of
             (Some n, Some d, Some t, Some a) \<Rightarrow>
               Some \<lparr>mi_name = n, mi_dosage = d, mi_duration = t, mi_additionalInstructions = a\<rparr>
           | _ \<Rightarrow> None)
      | _ \<Rightarrow> None)"

definition medicationsSchema :: "json option \<Rightarrow> MedicationInput list option" where
  "medicationsSchema v =
     (case v of Some (JArr xs) \<Rightarrow> those (map medicationSchema xs) | _ \<Rightarrow> None)"

definition prescriptionCreateSchema :: "(string \<Rightarrow> bool) \<Rightarrow> json \<Rightarrow> PrescriptionBody option" where
  "prescriptionCreateSchema is_datetime j =
     (case j of
        JObj kvs \<Rightarrow>
          (case (nonempty_string (map_of kvs ''patientId''),
                 medicationsSchema (map_of kvs ''medications''),
                 optional_string is_datetime (map_of kvs ''validTill''),
                 optional_string (\<lambda>s. True) (map_of kvs ''blockchainTxHash'')) of
             (Some p, Some ms, Some v, Some h) \<Rightarrow>
               Some \<lparr>pb_patientId = p, pb_medications = ms, pb_validTill = v,
                     pb_blockchainTxHash = h\<rparr>
           | _ \<Rightarrow> None)
      | _ \<Rightarrow> None)"

definition medication_of_input :: "MedicationInput \<Rightarrow> Medication" where
  "medication_of_input med =
     \<lparr>med_name = mi_name med,
      med_dosage = mi_dosage med,
      med_duration = mi_duration med,
      med_additionalInstructions =
        (case mi_additionalInstructions med of
           None \<Rightarrow> []
         | Some s \<Rightarrow> or_default s [])\<rparr>"

definition failed_to_create :: Response where
  "failed_to_create =
     \<lparr>res_status = 500, res_body = ErrorMessage ''Failed to create prescription''\<rparr>"

text \<open>
  The row has no \<open>issueDate\<close> in the handler's data: the database fills it in. A
  \<open>validTill\<close> that is \<open>Invalid Date\<close> makes \<open>create\<close> throw.
\<close>

definition POST_prescriptions :: "Runtime \<Rightarrow> Database \<Rightarrow> Request \<Rightarrow> Response \<times> Database" where
  "POST_prescriptions rt db req =
     (case req_user req of
        None \<Rightarrow> (\<lparr>res_status = 401, res_body = Text ''Unauthorized''\<rparr>, db)
      | Some user \<Rightarrow>
          (case find_doctor_by_user db (su_id user) of
             None \<Rightarrow>
               (\<lparr>res_status = 403, res_body = Text ''Only doctors can create prescriptions''\<rparr>, db)
           | Some doctor \<Rightarrow>
               (case req_json req of
                  None \<Rightarrow> (failed_to_create, db)
                | Some json \<Rightarrow>
                    (case prescriptionCreateSchema (rt_is_datetime rt) json of
                       None \<Rightarrow> (\<lparr>res_status = 422, res_body = ValidationFailed\<rparr>, db)
                     | Some body \<Rightarrow>
                         (let validTill =
                            (case pb_validTill body of
                               None \<Rightarrow> TimeClip (rt_now rt + 30 * 24 * 60 * 60 * 1000)
                             | Some s \<Rightarrow>
                                 if truthy s then rt_Date_parse rt s
                                 else TimeClip (rt_now rt + 30 * 24 * 60 * 60 * 1000))
                          in case validTill of
                               None \<Rightarrow> (failed_to_create, db)
                             | Some valid \<Rightarrow>
                                 (let prescription =
                                    \<lparr>pr_id = rt_new_prescription_id rt,
                                     pr_doctorId = doc_id doctor,
                                     pr_patientId = pb_patientId body,
                                     pr_issueDate = rt_db_now rt,
                                     pr_validTill = valid,
                                     pr_medications =
                                       map medication_of_input (pb_medications body)\<rparr>;
                                      db1 = db\<lparr>db_prescriptions := db_prescriptions db @ [prescription]\<rparr>
                                  in (\<lparr>res_status = 200,
                                       res_body = PrescriptionCreated (db_view db1 prescription)\<rparr>,
                                      db1)))))))"

section \<open>app/api/prescriptions/[id]/route.ts\<close>

text \<open>
  \<open>fetchPrescriptionFromBlockchain\<close>. The identifier is read with \<open>parseInt\<close> without a
  radix; the provider refuses a number that is negative or not a safe integer, and that
  exception, like every other one, is caught and gives \<open>null\<close> (\<open>None\<close>).
\<close>

definition fetchPrescriptionFromBlockchain ::
  "Contract call \<Rightarrow> string \<Rightarrow> string option \<Rightarrow> PrescriptionView option" where
  "fetchPrescriptionFromBlockchain provider prescriptionId userAddress =
     (case provider of
        Throws \<Rightarrow> None
      | Returns contract \<Rightarrow>
          (case parseInt prescriptionId 0 of
             None \<Rightarrow> None
           | Some blockchainId \<Rightarrow>
               if blockchainId < 0 \<or> 2 ^ 53 - 1 < blockchainId then None
               else
                 (case c_prescriptions contract (nat blockchainId) of
                    Throws \<Rightarrow> None
                  | Returns prescriptionData \<Rightarrow>
                      if cp_id prescriptionData = 0 then None
                      else
                        (case c_doctors contract (cp_doctorAddress prescriptionData) of
                           Throws \<Rightarrow> None
                         | Returns doctorInfo \<Rightarrow>
                             (case c_patients contract (cp_patientAddress prescriptionData) of
                                Throws \<Rightarrow> None
                              | Returns patientInfo \<Rightarrow>
                                  let given = (case userAddress of None \<Rightarrow> False
                                               | Some a \<Rightarrow> truthy a);
                                      address = (case userAddress of None \<Rightarrow> [] | Some a \<Rightarrow> a);
                                      hasAccess =
                                        (toLowerCase (cp_doctorAddress prescriptionData)
                                           = toLowerCase address
                                         \<or> toLowerCase (cp_patientAddress prescriptionData)
                                           = toLowerCase address)
                                  in if given \<and> \<not> hasAccess then None
                                     else chain_view prescriptionData doctorInfo patientInfo)))))"

section \<open>The doctor registration form (\<open>DoctorForm.onSubmit\<close>)\<close>

text \<open>
  The form talks to two stores that are not part of the component: the medical contract,
  through the wallet, and the database, through \<open>POST /api/users/doctor\<close>. Their states
  are the type parameters \<open>'chain\<close> and \<open>'db\<close>, and what they do is given by the
  functions of \<open>Services\<close>. A promise resolves or rejects with an error; the HTTP client
  resolves with the status of a successful response and rejects otherwise.
\<close>

record FormData =
  fd_name :: string
  fd_phoneNumber :: string
  fd_aadharNumber :: string
  fd_mbbsId :: string
  fd_specialty :: string
  fd_blockId :: string
  fd_fees :: int

text \<open>The two properties of a caught error that the handler reads.\<close>

record JsError =
  err_message :: "string option"
  err_data_message :: "string option"

datatype HttpResult = Resolved nat | Rejected JsError

record ('chain, 'db) Services =
  svc_init :: "string \<Rightarrow> JsError option"
  svc_registerDoctor :: "'chain \<Rightarrow> string \<Rightarrow> string \<Rightarrow> string \<Rightarrow> int \<Rightarrow> JsError + 'chain"
  svc_post_doctor :: "'db \<Rightarrow> FormData \<Rightarrow> string \<Rightarrow> HttpResult \<times> 'db"

datatype Variant = Default | Destructive

record Toast =
  toast_title :: string
  toast_description :: string
  toast_variant :: Variant

text \<open>What the handler does to the outside, in order.\<close>

datatype Effect =
    ContractInit string
  | ContractRegisterDoctor string string int
  | PostUsersDoctor string
  | ShowToast Toast
  | RouterPush string

record ('chain, 'db) Outcome =
  out_chain :: 'chain
  out_db :: 'db
  out_effects :: "Effect list"

text \<open>The \<open>catch\<close> clause of \<open>onSubmit\<close>.\<close>

definition onSubmit_catch ::
  "('chain, 'db) Services \<Rightarrow> string \<Rightarrow> FormData \<Rightarrow> JsError \<Rightarrow> 'chain \<Rightarrow> 'db \<Rightarrow> Effect list
     \<Rightarrow> ('chain, 'db) Outcome" where
  "onSubmit_catch svc userId data error chain db effects =
     (let isAlreadyRegistered =
            (case err_data_message error of
               None \<Rightarrow> False
             | Some m \<Rightarrow> str_includes m ''Doctor already registered'')
      in if isAlreadyRegistered then
           (case svc_post_doctor svc db data userId of
              (Resolved status, db') \<Rightarrow>
                if status = 200 then
                  \<lparr>out_chain = chain, out_db = db',
                   out_effects = effects @
                     [PostUsersDoctor userId,
                      ShowToast \<lparr>toast_title = ''Registration Completed'',
                        toast_description =
                          ''You were already registered on blockchain. Database registration completed.'',
                        toast_variant = Default\<rparr>,
                      RouterPush ''/doctor'']\<rparr>
                else
                  \<lparr>out_chain = chain, out_db = db',
                   out_effects = effects @
                     [PostUsersDoctor userId,
                      ShowToast \<lparr>toast_title = ''Registration Issue'',
                        toast_description =
                          ''You're already registered on blockchain, but database registration failed.'',
                        toast_variant = Destructive\<rparr>]\<rparr>
            | (Rejected dbError, db') \<Rightarrow>
                \<lparr>out_chain = chain, out_db = db',
                 out_effects = effects @
                   [PostUsersDoctor userId,
                    ShowToast \<lparr>toast_title = ''Registration Failed'',
                      toast_description =
                        ''You're already registered on blockchain, but database registration failed.'',
                      toast_variant = Destructive\<rparr>]\<rparr>)
         else
           \<lparr>out_chain = chain, out_db = db,
            out_effects = effects @
              [ShowToast \<lparr>toast_title = ''Registration Failed'',
                 toast_description = ''Failed to register: '' @
                   (case err_message error of
                      None \<Rightarrow> ''Unknown error''
                    | Some m \<Rightarrow> or_default m ''Unknown error''),
                 toast_variant = Destructive\<rparr>]\<rparr>)"

definition onSubmit ::
  "('chain, 'db) Services \<Rightarrow> string \<Rightarrow> FormData \<Rightarrow> 'chain \<Rightarrow> 'db \<Rightarrow> ('chain, 'db) Outcome" where
  "onSubmit svc userId data chain db =
     (case svc_init svc (fd_blockId data) of
        Some error \<Rightarrow>
          onSubmit_catch svc userId data error chain db [ContractInit (fd_blockId data)]
      | None \<Rightarrow>
          (case svc_registerDoctor svc chain (fd_blockId data) (fd_name data) (fd_specialty data)
                  (fd_fees data) of
             Inl error \<Rightarrow>
               onSubmit_catch svc userId data error chain db
                 [ContractInit (fd_blockId data),
                  ContractRegisterDoctor (fd_name data) (fd_specialty data) (fd_fees data)]
           | Inr chain' \<Rightarrow>
               (case svc_post_doctor svc db data userId of
                  (Rejected error, db') \<Rightarrow>
                    onSubmit_catch svc userId data error chain' db'
                      [ContractInit (fd_blockId data),
                       ContractRegisterDoctor (fd_name data) (fd_specialty data) (fd_fees data),
                       PostUsersDoctor userId]
                | (Resolved status, db') \<Rightarrow>
                    if status \<noteq> 200 then
                      \<lparr>out_chain = chain', out_db = db',
                       out_effects =
                         [ContractInit (fd_blockId data),
                          ContractRegisterDoctor (fd_name data) (fd_specialty data) (fd_fees data),
                          PostUsersDoctor userId,
                          ShowToast \<lparr>toast_title = ''Database Registration Failed'',
                            toast_description =
                              ''Blockchain registration succeeded but database registration failed. Please contact support.'',
                            toast_variant = Destructive\<rparr>]\<rparr>
                    else
                      \<lparr>out_chain = chain', out_db = db',
                       out_effects =
                         [ContractInit (fd_blockId data),
                          ContractRegisterDoctor (fd_name data) (fd_specialty data) (fd_fees data),
                          PostUsersDoctor userId,
                          ShowToast \<lparr>toast_title = ''Success!'',
                            toast_description = ''Doctor registration completed successfully.'',
                            toast_variant = Default\<rparr>,
                          RouterPush ''/doctor'']\<rparr>)))"

text \<open>The effects that write to the contract, and those that navigate.\<close>

fun is_chain_write :: "Effect \<Rightarrow> bool" where
  "is_chain_write (ContractRegisterDoctor n s f) = True"
| "is_chain_write _ = False"

fun is_router_push :: "Effect \<Rightarrow> bool" where
  "is_router_push (RouterPush p) = True"
| "is_router_push _ = False"

section \<open>Notions used to state the properties\<close>

text \<open>The raw 32-byte Keccak-256 digest of a byte string.\<close>

definition keccak_bytes :: "keccak \<Rightarrow> bytes \<Rightarrow> bytes" where
  "keccak_bytes K bs = digest (K bs)"

text \<open>Two different byte strings with the same digest.\<close>

definition keccak_collision :: "keccak \<Rightarrow> bytes \<Rightarrow> bytes \<Rightarrow> bool" where
  "keccak_collision K x y = (x \<noteq> y \<and> K x = K y)"

text \<open>The \<open>k\<close> hexadecimal digits of a number, most significant first.\<close>

fun digits16 :: "nat \<Rightarrow> nat \<Rightarrow> nat list" where
  "digits16 0 n = []"
| "digits16 (Suc k) n = digits16 k (n div 16) @ [n mod 16]"

text \<open>The values of the hexadecimal digits of a text, in order.\<close>

definition hexValues :: "string \<Rightarrow> nat list" where
  "hexValues s = map (\<lambda>c. the (radixDigit 16 c)) s"

text \<open>
  A stand-in digest for concrete evaluation (the sum of the bytes), and a small
  prescription.
\<close>

definition byteSum :: keccak where
  "byteSum bs = of_nat (sum_list (map unat bs))"

definition example_prescription :: AnonymousPrescriptionData where
  "example_prescription =
     \<lparr>apd_medications = [], apd_diagnosis = [], apd_doctorId = [], apd_secretKey = ''k''\<rparr>"


text \<open>
  The patient profile of the requesting user in \<open>POST /api/appointments\<close>: the one in
  the database or, when there is none, the one the handler creates.
\<close>

definition requesting_patient :: "Runtime \<Rightarrow> Database \<Rightarrow> SessionUser \<Rightarrow> PatientRow" where
  "requesting_patient rt db user =
     (case find_patient_by_user db (su_id user) of
        Some patient \<Rightarrow> patient
      | None \<Rightarrow> default_patient rt user)"

text \<open>The session user has a row in the user table.\<close>

definition has_account :: "Database \<Rightarrow> SessionUser \<Rightarrow> bool" where
  "has_account db user = (find (\<lambda>u. usr_id u = su_id user) (db_users db) \<noteq> None)"

text \<open>The two time ranges overlap, in the sense of the query.\<close>

definition overlaps :: "AppointmentRow \<Rightarrow> int \<Rightarrow> int \<Rightarrow> bool" where
  "overlaps existing startTime endTime =
     (app_startTime existing \<le> endTime \<and> app_endTime existing \<ge> startTime)"

text \<open>
  The rows of the prescription table that the query of \<open>GET /api/prescriptions\<close>
  selects for the request: those of the doctor, or those of the patient.
\<close>

definition selected_prescriptions :: "Database \<Rightarrow> Request \<Rightarrow> PrescriptionRow list" where
  "selected_prescriptions db req =
     (case req_user req of
        None \<Rightarrow> []
      | Some user \<Rightarrow>
          if requested_role req = ''doctor'' then
            (case find_doctor_by_user db (su_id user) of
               None \<Rightarrow> []
             | Some doctor \<Rightarrow> filter (\<lambda>p. pr_doctorId p = doc_id doctor) (db_prescriptions db))
          else
            (case find_patient_by_user db (su_id user) of
               None \<Rightarrow> []
             | Some patient \<Rightarrow> filter (\<lambda>p. pr_patientId p = pat_id patient) (db_prescriptions db)))"

text \<open>What holds of the map of \<open>GET /api/prescriptions\<close> while it is filled from the
  database records \<open>dbs\<close> and the chain records \<open>bcs\<close>.\<close>

definition map_ok ::
  "PrescriptionView list \<Rightarrow> PrescriptionView list \<Rightarrow> prescription_map \<Rightarrow> bool" where
  "map_ok dbs bcs m =
     (distinct (map fst m)
    \<and> (\<forall>x \<in> set m. fst x = pv_id (snd x)
          \<and> (snd x \<in> set dbs \<or> (snd x \<in> set bcs \<and> pv_id (snd x) \<notin> pv_id ` set dbs))))"

text \<open>Sample data for concrete evaluation.\<close>

definition example_runtime :: Runtime where
  "example_runtime =
     \<lparr>rt_now = 1700000000000,
      rt_is_datetime = (\<lambda>s. length s = 24),
      rt_Date_parse = (\<lambda>s. if s = ''2024-01-01T10:00:00.000Z'' then Some 1704103200000
                            else if s = ''2024-01-01T11:00:00.000Z'' then Some 1704106800000
                            else None),
      rt_new_patient_id = ''p-new'',
      rt_new_appointment_id = ''a-new'',
      rt_new_prescription_id = ''rx-new'',
      rt_db_now = 1700000000005,
      rt_random_blockId = ''0x3fa1''\<rparr>"

definition example_db :: Database where
  "example_db =
     \<lparr>db_users =
        [\<lparr>usr_id = ''u1'', usr_name = Some ''Ann'', usr_email = None, usr_role = ''patient''\<rparr>,
         \<lparr>usr_id = ''u2'', usr_name = Some ''Bob'', usr_email = None, usr_role = ''doctor''\<rparr>],
      db_patients =
        [\<lparr>pat_id = ''p1'', pat_userId = ''u1'', pat_gender = ''F'', pat_dateOfBirth = 0,
          pat_bloodType = ''A'', pat_chronicDiseases = [], pat_emergencyContact = ''none'',
          pat_blockId = ''0xaa''\<rparr>],
      db_doctors =
        [\<lparr>doc_id = ''d1'', doc_userId = ''u2'', doc_blockId = ''0xbb'', doc_verified = True,
          doc_specialization = ''ENT'', doc_licenseNumber = ''L1''\<rparr>],
      db_appointments =
        [\<lparr>app_id = ''a1'', app_doctorId = ''d1'', app_patientId = ''p9'',
          app_startTime = 1704105000000, app_endTime = 1704108600000, app_status = CONFIRMED\<rparr>],
      db_prescriptions =
        [\<lparr>pr_id = ''7'', pr_doctorId = ''d1'', pr_patientId = ''p1'', pr_issueDate = 1600000000000,
          pr_validTill = 1602592000000, pr_medications = []\<rparr>,
         \<lparr>pr_id = ''rx2'', pr_doctorId = ''d1'', pr_patientId = ''p1'', pr_issueDate = 1650000000000,
          pr_validTill = 1652592000000, pr_medications = []\<rparr>]\<rparr>"

definition example_appointment_request :: Request where
  "example_appointment_request =
     \<lparr>req_user = Some \<lparr>su_id = ''u1''\<rparr>,
      req_json = Some (JObj [(''doctorId'', JStr ''d1''),
                             (''startTime'', JStr ''2024-01-01T10:00:00.000Z''),
                             (''endTime'', JStr ''2024-01-01T11:00:00.000Z'')]),
      req_role = None\<rparr>"

definition example_contract :: Contract where
  "example_contract =
     \<lparr>c_prescriptionCounter = Returns 2,
      c_prescriptions = (\<lambda>i.
         if i = 1 then Returns \<lparr>cp_id = 1, cp_doctorAddress = ''0xBB'', cp_patientAddress = ''0xaa'',
                                 cp_issueDate = 1700000000\<rparr>
         else if i = 2 then Returns \<lparr>cp_id = 7, cp_doctorAddress = ''0xbb'', cp_patientAddress = ''0xaa'',
                                 cp_issueDate = 1620000000\<rparr>
         else Returns \<lparr>cp_id = 0, cp_doctorAddress = [], cp_patientAddress = [], cp_issueDate = 0\<rparr>),
      c_doctors = (\<lambda>a. Returns \<lparr>cd_name = ''Bob'', cd_speciality = ''ENT''\<rparr>),
      c_patients = (\<lambda>a. Returns \<lparr>cpt_name = []\<rparr>)\<rparr>"

definition example_prescription_json :: json where
  "example_prescription_json =
     JObj [(''patientId'', JStr ''p1''),
           (''medications'',
              JArr [JObj [(''name'', JStr ''Amoxicillin''), (''dosage'', JStr ''500mg''),
                          (''duration'', JStr ''7 days'')]])]"

definition example_prescription_request :: Request where
  "example_prescription_request =
     \<lparr>req_user = Some \<lparr>su_id = ''u2''\<rparr>,
      req_json = Some example_prescription_json,
      req_role = Some ''doctor''\<rparr>"

definition example_view :: PrescriptionView where
  "example_view =
     \<lparr>pv_id = ''1'', pv_issueDate = 1700000000000, pv_validTill = 1702592000000,
      pv_doctorId = None, pv_patientId = None, pv_patientName = Some ''Unknown Patient'',
      pv_doctorName = Some ''Bob'', pv_specialization = ''ENT'', pv_licenseNumber = [],
      pv_medications = [], pv_blockchainOnly = True\<rparr>"

definition example_listing :: "PrescriptionView list" where
  "example_listing =
     [example_view,
      \<lparr>pv_id = ''rx2'', pv_issueDate = 1650000000000, pv_validTill = 1652592000000,
       pv_doctorId = Some ''d1'', pv_patientId = Some ''p1'', pv_patientName = Some ''Ann'',
       pv_doctorName = Some ''Bob'', pv_specialization = ''ENT'', pv_licenseNumber = ''L1'',
       pv_medications = [], pv_blockchainOnly = False\<rparr>,
      \<lparr>pv_id = ''7'', pv_issueDate = 1600000000000, pv_validTill = 1602592000000,
       pv_doctorId = Some ''d1'', pv_patientId = Some ''p1'', pv_patientName = Some ''Ann'',
       pv_doctorName = Some ''Bob'', pv_specialization = ''ENT'', pv_licenseNumber = ''L1'',
       pv_medications = [], pv_blockchainOnly = False\<rparr>]"

text \<open>
  Sample services for the registration form: a contract that keeps the list of the
  registered addresses and refuses a second registration, and a server that is down.
\<close>

definition example_services :: "(string list, string list) Services" where
  "example_services =
     \<lparr>svc_init = (\<lambda>blockId. None),
      svc_registerDoctor = (\<lambda>chain blockId name specialty fees.
         if blockId \<in> set chain
         then Inl \<lparr>err_message = Some ''execution reverted'',
                   err_data_message = Some ''execution reverted: Doctor already registered''\<rparr>
         else Inr (chain @ [blockId])),
      svc_post_doctor = (\<lambda>db data userId.
         (Rejected \<lparr>err_message = Some ''Request failed with status code 500'',
                     err_data_message = None\<rparr>, db))\<rparr>"

definition example_form :: FormData where
  "example_form =
     \<lparr>fd_name = ''Bob Brown'', fd_phoneNumber = ''5550100100'', fd_aadharNumber = ''123412341234'',
      fd_mbbsId = ''M-1'', fd_specialty = ''ENT'', fd_blockId = ''0xbb'', fd_fees = 5\<rparr>"

text \<open>
  The records that \<open>GET /api/prescriptions\<close> fetches from the chain for the request: for
  a doctor with an address those the doctor issued, for a patient all of them.
\<close>

definition fetched_prescriptions ::
  "Contract call \<Rightarrow> Database \<Rightarrow> Request \<Rightarrow> PrescriptionView list" where
  "fetched_prescriptions provider db req =
     (case req_user req of
        None \<Rightarrow> []
      | Some user \<Rightarrow>
          if requested_role req = ''doctor'' then
            (case find_doctor_by_user db (su_id user) of
               None \<Rightarrow> []
             | Some doctor \<Rightarrow>
                 if truthy (doc_blockId doctor)
                 then fetchAllPrescriptionsFromBlockchain provider (Some (doc_blockId doctor)) True
                 else [])
          else fetchAllPrescriptionsFromBlockchain provider None False)"

text \<open>
  The caller of \<open>fetchPrescriptionFromBlockchain\<close> may read the record: no address is
  given, or the address is that of the doctor or of the patient.
\<close>

definition may_read :: "string option \<Rightarrow> ChainPrescription \<Rightarrow> bool" where
  "may_read userAddress pd =
     (case userAddress of
        None \<Rightarrow> True
      | Some a \<Rightarrow>
          a = [] \<or> toLowerCase (cp_doctorAddress pd) = toLowerCase a
                 \<or> toLowerCase (cp_patientAddress pd) = toLowerCase a)"

text \<open>
  \<open>fetchAllPrescriptionsFromBlockchain\<close> keeps the record: no address is given, or the
  address is that of the doctor (for a doctor) or that of the patient (for a patient).
\<close>

definition is_listed :: "string option \<Rightarrow> bool \<Rightarrow> ChainPrescription \<Rightarrow> bool" where
  "is_listed userAddress isDoctor pd =
     (case userAddress of
        None \<Rightarrow> True
      | Some a \<Rightarrow>
          a = [] \<or> (if isDoctor then toLowerCase (cp_doctorAddress pd) = toLowerCase a
                      else toLowerCase (cp_patientAddress pd) = toLowerCase a))"

text \<open>Both dates of a chain record issued at \<open>issueDate\<close> seconds are valid time values.\<close>

definition dates_valid :: "ChainPrescription \<Rightarrow> bool" where
  "dates_valid pd = (int (cp_issueDate pd) * 1000 + 30 * 24 * 60 * 60 * 1000 \<le> 8640000000000000)"

section \<open>Properties of \<open>lib/zkProofs.ts\<close>\<close>

subsection \<open>Hexadecimal text and digests\<close>

lemma radixDigit_hexDigit: "d < 16 \<Longrightarrow> radixDigit 16 (hexDigit d) = Some d"
  by (auto simp: radixDigit_def digitValue_def hexDigit_def Let_def)

lemma hexPairs_encode:
  "hexPairs (concat (map (\<lambda>b::byte. [hexDigit (unat b div 16), hexDigit (unat b mod 16)]) bs))
     = Some bs"
proof (induction bs)
  case Nil
  show ?case by simp
next
  case (Cons b bs)
  have hi: "unat b div 16 < 16"
  proof -
    have "unat b < 256" using unsigned_less [of b, where ?'a = nat] by simp
    then show ?thesis by simp
  qed
  have lo: "unat b mod 16 < 16" by simp
  show ?case
    using Cons.IH by (simp add: radixDigit_hexDigit [OF hi] radixDigit_hexDigit [OF lo])
qed

lemma getBytes_hexlify: "getBytes (Hex (hexlify bs)) = Some bs"
  by (simp add: getBytes_def hexlify_def startsWith_def hexPairs_encode)

lemma hexlify_inject: "hexlify x = hexlify y \<Longrightarrow> x = y"
  by (metis getBytes_hexlify option.inject)

lemma length_digest: "length (digest w) = 32"
  by (simp add: digest_def)

lemma digest_bit:
  assumes "n < 256"
  shows "bit (digest w ! (31 - n div 8)) (n mod 8) = bit w n"
proof -
  have i: "31 - n div 8 < 32" by simp
  have k: "8 * (31 - (31 - n div 8)) + n mod 8 = n" using assms by simp
  have "digest w ! (31 - n div 8) = ucast (drop_bit (8 * (31 - (31 - n div 8))) w)"
    unfolding digest_def using i by (simp del: upt_Suc)
  then show ?thesis
    using k by (simp add: bit_ucast_iff bit_drop_bit_eq)
qed

lemma digest_inject: "digest w = digest w' \<Longrightarrow> w = w'"
proof (rule bit_word_eqI)
  fix n assume eq: "digest w = digest w'" and "n < LENGTH(256)"
  then have n: "n < 256" by simp
  show "bit w n = bit w' n"
    using digest_bit [OF n, of w] digest_bit [OF n, of w'] eq by simp
qed

lemma of_char_byte_inject: "(of_char c :: byte) = of_char c' \<Longrightarrow> c = c'"
proof -
  assume eq: "(of_char c :: byte) = of_char c'"
  have u: "unat (of_char d :: byte) = of_char d" for d
  proof -
    have "(of_char d :: byte) = of_nat (of_char d)" by (simp add: of_nat_of_char)
    then show ?thesis by (simp add: unat_of_nat)
  qed
  have "(of_char c :: nat) = unat (of_char c :: byte)" by (simp only: u)
  also have "\<dots> = unat (of_char c' :: byte)" by (simp only: eq)
  also have "\<dots> = of_char c'" by (simp only: u)
  finally have "(of_char c :: nat) = of_char c'" .
  then show ?thesis by simp
qed

lemma toUtf8Bytes_inject: "toUtf8Bytes s = toUtf8Bytes t \<Longrightarrow> s = t"
  unfolding toUtf8Bytes_def
  by (rule map_injective [where f = of_char]) (auto simp: inj_on_def dest: of_char_byte_inject)

lemma keccak256_U8: "keccak256 K (U8 bs) = Some (hexlify (keccak_bytes K bs))"
  by (simp add: keccak256_def getBytes_def keccak_bytes_def)

lemma keccak256_Hex: "keccak256 K (Hex (hexlify bs)) = Some (hexlify (keccak_bytes K bs))"
  by (simp add: keccak256_def getBytes_hexlify keccak_bytes_def)

lemma pack_bytes32: "length bs = 32 \<Longrightarrow> pack ''bytes32'' (hexlify bs) = Some bs"
  by (simp add: pack_def getBytes_hexlify)

lemma solidityPacked_two:
  "length x = 32 \<Longrightarrow> length y = 32 \<Longrightarrow>
   solidityPacked [''bytes32'', ''bytes32''] [hexlify x, hexlify y] = Some (hexlify (x @ y))"
  by (simp add: solidityPacked_def pack_bytes32)

lemma generateCommitment_value:
  "generateCommitment K now d =
     Some (hexlify (keccak_bytes K
       (keccak_bytes K (toUtf8Bytes (JSON_stringify (commitment_object now d)))
        @ keccak_bytes K (toUtf8Bytes (apd_secretKey d)))))"
  by (simp add: generateCommitment_def keccak256_U8 keccak256_Hex
      solidityPacked_two keccak_bytes_def length_digest)

subsection \<open>Concrete evaluations\<close>

lemma example_sum_0:
  "sum_list (map unat (toUtf8Bytes (JSON_stringify (commitment_object 0 example_prescription))))
     = 5185"
  by code_simp

lemma example_sum_1000:
  "sum_list (map unat (toUtf8Bytes (JSON_stringify (commitment_object 1000 example_prescription))))
     = 5186"
  by code_simp

lemma example_sum_key: "sum_list (map unat (toUtf8Bytes ''k'')) = 107"
  by code_simp

lemma example_packed_0: "sum_list (map unat (digest 5185 @ digest 107)) = 192"
  by code_simp

lemma example_packed_1000: "sum_list (map unat (digest 5186 @ digest 107)) = 193"
  by code_simp

lemma example_strings_differ:
  "toUtf8Bytes (JSON_stringify (commitment_object 0 example_prescription))
     \<noteq> toUtf8Bytes (JSON_stringify (commitment_object 1000 example_prescription))"
  by code_simp

lemma example_digest_0:
  "keccak_bytes byteSum (toUtf8Bytes (JSON_stringify (commitment_object 0 example_prescription)))
     = digest 5185"
  by (simp add: keccak_bytes_def byteSum_def example_sum_0)

lemma example_digest_1000:
  "keccak_bytes byteSum (toUtf8Bytes (JSON_stringify (commitment_object 1000 example_prescription)))
     = digest 5186"
  by (simp add: keccak_bytes_def byteSum_def example_sum_1000)

lemma example_digest_key:
  "keccak_bytes byteSum (toUtf8Bytes (apd_secretKey example_prescription)) = digest 107"
  by (simp add: keccak_bytes_def byteSum_def example_prescription_def example_sum_key)

subsection \<open>The commitment formula\<close>

text \<open>
  C1. \<open>generateCommitment\<close> returns, as hexadecimal text, the Keccak-256 digest of the
  concatenation of two digests: that of the UTF-8 bytes of the JSON serialisation of the
  object with the medications, the diagnosis, the doctorId and the timestamp
  \<open>Math.floor(Date.now() / 1000)\<close>, and that of the UTF-8 bytes of the secretKey. This
  holds for the strings of the model, which are sequences of UTF-8 bytes, that is
  well-formed strings: on these none of the library calls throws. A string with a lone
  surrogate, on which \<open>toUtf8Bytes\<close> throws, has no encoding and is not covered.
\<close>

theorem generateCommitment_formula:
  "generateCommitment K now d =
     Some (hexlify (keccak_bytes K
       (keccak_bytes K (toUtf8Bytes (JSON_stringify
          (JObj [(''medications'', JArr (map medication_json (apd_medications d))),
                 (''diagnosis'', JStr (apd_diagnosis d)),
                 (''doctorId'', JStr (apd_doctorId d)),
                 (''timestamp'', JNum (now div 1000))])))
        @ keccak_bytes K (toUtf8Bytes (apd_secretKey d)))))"
  using generateCommitment_value [of K now d] by (simp only: commitment_object_def)

theorem generateCommitment_formula_witness:
  "generateCommitment byteSum 0 example_prescription = Some (hexlify (digest 192))"
proof -
  have "generateCommitment byteSum 0 example_prescription =
     Some (hexlify (keccak_bytes byteSum
       (keccak_bytes byteSum
          (toUtf8Bytes (JSON_stringify (commitment_object 0 example_prescription)))
        @ keccak_bytes byteSum (toUtf8Bytes (apd_secretKey example_prescription)))))"
    using generateCommitment_formula [of byteSum 0 example_prescription]
    by (simp only: commitment_object_def)
  then have "generateCommitment byteSum 0 example_prescription =
     Some (hexlify (keccak_bytes byteSum (digest 5185 @ digest 107)))"
    by (simp only: example_digest_0 example_digest_key)
  moreover have "keccak_bytes byteSum (digest 5185 @ digest 107) = digest 192"
    by (simp only: keccak_bytes_def byteSum_def example_packed_0) simp
  ultimately show ?thesis by (simp only:)
qed

subsection \<open>The commitment depends on the clock\<close>

lemma hexDigit_decimal: "d < 10 \<Longrightarrow> of_char (hexDigit d) = 48 + d"
  by (simp add: hexDigit_def)

lemma digits10_read:
  "foldl (\<lambda>acc c. acc * 10 + (of_char c - 48)) 0 (digits10 n) = n"
proof (induction n rule: digits10.induct)
  case (1 n)
  show ?case
  proof (cases "n < 10")
    case True
    then show ?thesis by (simp add: digits10.simps [of n] hexDigit_decimal)
  next
    case False
    then have "foldl (\<lambda>acc c. acc * 10 + (of_char c - 48)) 0 (digits10 (n div 10)) = n div 10"
      using "1.IH" by simp
    then show ?thesis
      using False by (simp add: digits10.simps [of n] hexDigit_decimal)
  qed
qed

lemma digits10_inject: "digits10 m = digits10 n \<Longrightarrow> m = n"
  by (metis digits10_read)

lemma digits10_no_minus: "hd (digits10 n) \<noteq> CHR ''-'' \<and> digits10 n \<noteq> []"
proof (induction n rule: digits10.induct)
  case (1 n)
  show ?case
  proof (cases "n < 10")
    case True
    have "(of_char (hexDigit n) :: nat) \<noteq> of_char CHR ''-''"
      using True by (simp add: hexDigit_decimal)
    then have "hexDigit n \<noteq> CHR ''-''" by fastforce
    then show ?thesis using True by (simp add: digits10.simps [of n])
  next
    case False
    then show ?thesis using "1.IH" by (simp add: digits10.simps [of n])
  qed
qed

lemma Number_toString_inject: "Number_toString i = Number_toString j \<Longrightarrow> i = j"
proof -
  assume eq: "Number_toString i = Number_toString j"
  consider "i < 0" "j < 0" | "i < 0" "\<not> j < 0" | "\<not> i < 0" "j < 0" | "\<not> i < 0" "\<not> j < 0"
    by blast
  then show ?thesis
  proof cases
    case 1
    then have "nat (- i) = nat (- j)" using eq digits10_inject by (simp add: Number_toString_def)
    then show ?thesis using 1 by simp
  next
    case 2
    then have "CHR ''-'' # digits10 (nat (- i)) = digits10 (nat j)"
      using eq by (simp add: Number_toString_def)
    then have "hd (digits10 (nat j)) = CHR ''-''" by (metis list.sel(1))
    then show ?thesis using digits10_no_minus by blast
  next
    case 3
    then have "digits10 (nat i) = CHR ''-'' # digits10 (nat (- j))"
      using eq by (simp add: Number_toString_def)
    then have "hd (digits10 (nat i)) = CHR ''-''" by (metis list.sel(1))
    then show ?thesis using digits10_no_minus by blast
  next
    case 4
    then have "nat i = nat j" using eq digits10_inject by (simp add: Number_toString_def)
    then show ?thesis using 4 by simp
  qed
qed

lemma dataString_eq_iff:
  "JSON_stringify (commitment_object n1 d) = JSON_stringify (commitment_object n2 d)
     \<longleftrightarrow> n1 div 1000 = n2 div 1000"
  using Number_toString_inject [of "n1 div 1000" "n2 div 1000"]
  by (auto simp: commitment_object_def)

text \<open>
  C2. \<open>generateCommitment\<close> is not a function of its argument alone: it reads the clock.
  Two evaluations on the same prescription data whose clock readings fall in different
  seconds serialise different texts, and therefore return different commitments unless
  Keccak-256 collides on the two texts or on the two packed pairs of digests.
\<close>

theorem generateCommitment_reads_clock:
  assumes "now1 div 1000 \<noteq> now2 div 1000"
    and "\<not> keccak_collision K (toUtf8Bytes (JSON_stringify (commitment_object now1 d)))
                               (toUtf8Bytes (JSON_stringify (commitment_object now2 d)))"
    and "\<not> keccak_collision K
            (keccak_bytes K (toUtf8Bytes (JSON_stringify (commitment_object now1 d)))
               @ keccak_bytes K (toUtf8Bytes (apd_secretKey d)))
            (keccak_bytes K (toUtf8Bytes (JSON_stringify (commitment_object now2 d)))
               @ keccak_bytes K (toUtf8Bytes (apd_secretKey d)))"
  shows "generateCommitment K now1 d \<noteq> generateCommitment K now2 d"
proof
  let ?j1 = "toUtf8Bytes (JSON_stringify (commitment_object now1 d))"
  let ?j2 = "toUtf8Bytes (JSON_stringify (commitment_object now2 d))"
  let ?s = "keccak_bytes K (toUtf8Bytes (apd_secretKey d))"
  assume "generateCommitment K now1 d = generateCommitment K now2 d"
  then have "hexlify (keccak_bytes K (keccak_bytes K ?j1 @ ?s))
      = hexlify (keccak_bytes K (keccak_bytes K ?j2 @ ?s))"
    by (simp only: generateCommitment_value option.inject)
  then have "digest (K (keccak_bytes K ?j1 @ ?s)) = digest (K (keccak_bytes K ?j2 @ ?s))"
    unfolding keccak_bytes_def by (rule hexlify_inject)
  then have "K (keccak_bytes K ?j1 @ ?s) = K (keccak_bytes K ?j2 @ ?s)"
    by (rule digest_inject)
  then have "keccak_bytes K ?j1 @ ?s = keccak_bytes K ?j2 @ ?s"
    using assms(3) unfolding keccak_collision_def by blast
  then have "digest (K ?j1) = digest (K ?j2)"
    by (simp add: keccak_bytes_def)
  then have "K ?j1 = K ?j2" by (rule digest_inject)
  then have "?j1 = ?j2"
    using assms(2) unfolding keccak_collision_def by blast
  then have "JSON_stringify (commitment_object now1 d) = JSON_stringify (commitment_object now2 d)"
    by (rule toUtf8Bytes_inject)
  then show False using assms(1) by (simp only: dataString_eq_iff)
qed

theorem generateCommitment_reads_clock_witness:
  "generateCommitment byteSum 0 example_prescription
     \<noteq> generateCommitment byteSum 1000 example_prescription"
proof (rule generateCommitment_reads_clock)
  show "(0::int) div 1000 \<noteq> 1000 div 1000" by simp
  have "byteSum (toUtf8Bytes (JSON_stringify (commitment_object 0 example_prescription)))
      \<noteq> byteSum (toUtf8Bytes (JSON_stringify (commitment_object 1000 example_prescription)))"
    by (simp only: byteSum_def example_sum_0 example_sum_1000) simp
  then show "\<not> keccak_collision byteSum
      (toUtf8Bytes (JSON_stringify (commitment_object 0 example_prescription)))
      (toUtf8Bytes (JSON_stringify (commitment_object 1000 example_prescription)))"
    by (simp only: keccak_collision_def) blast
  have "byteSum (digest 5185 @ digest 107) \<noteq> byteSum (digest 5186 @ digest 107)"
    by (simp only: byteSum_def example_packed_0 example_packed_1000) simp
  then show "\<not> keccak_collision byteSum
      (keccak_bytes byteSum (toUtf8Bytes (JSON_stringify (commitment_object 0 example_prescription)))
         @ keccak_bytes byteSum (toUtf8Bytes (apd_secretKey example_prescription)))
      (keccak_bytes byteSum (toUtf8Bytes (JSON_stringify (commitment_object 1000 example_prescription)))
         @ keccak_bytes byteSum (toUtf8Bytes (apd_secretKey example_prescription)))"
    by (simp only: keccak_collision_def example_digest_0 example_digest_1000 example_digest_key)
       blast
qed

subsection \<open>The mock proof\<close>

text \<open>
  C3. \<open>generateZKProof\<close> resolves, for every prescription data, to the same hardcoded
  components \<open>a\<close>, \<open>b\<close> and \<open>c\<close> and to an \<open>inputs\<close> array that holds exactly the
  commitment computed for that data; \<open>verifyZKProof\<close> resolves to \<open>true\<close> for every
  proof.
\<close>

theorem zk_proof_is_mock:
  "(\<exists>commitment.
       generateCommitment K now d = Some commitment
     \<and> generateZKProof K now d =
         Some \<lparr>zk_proof = \<lparr>zk_a = (''0x1234'', ''0x5678''),
                            zk_b = ((''0xabcd'', ''0xef01''), (''0x2345'', ''0x6789'')),
                            zk_c = (''0x9abc'', ''0xdef0'')\<rparr>,
               zk_inputs = [commitment]\<rparr>)
   \<and> verifyZKProof p = True"
  by (simp add: generateZKProof_def generateCommitment_value mockProof_def verifyZKProof_def)

theorem zk_proof_is_mock_witness:
  "generateZKProof byteSum 0 example_prescription =
     Some \<lparr>zk_proof = \<lparr>zk_a = (''0x1234'', ''0x5678''),
                        zk_b = ((''0xabcd'', ''0xef01''), (''0x2345'', ''0x6789'')),
                        zk_c = (''0x9abc'', ''0xdef0'')\<rparr>,
           zk_inputs = [the (generateCommitment byteSum 0 example_prescription)]\<rparr>
   \<and> verifyZKProof \<lparr>zk_proof = mockProof, zk_inputs = []\<rparr> = True"
  using zk_proof_is_mock [of byteSum 0 example_prescription "\<lparr>zk_proof = mockProof, zk_inputs = []\<rparr>"]
  by (metis option.sel)

subsection \<open>Splitting a commitment into 32-bit words\<close>

lemma chunks_loop_unroll:
  "chunks_loop p 0 [] =
     map (\<lambda>i. parseInt (slice_string p i (i + 8)) 16) [0, 8, 16, 24, 32, 40, 48, 56]"
  by (simp add: chunks_loop.simps)

lemma isHexDigit_not_ws: "isHexDigit c \<Longrightarrow> \<not> isWhiteSpace c"
  by (auto simp: isHexDigit_def radixDigit_def digitValue_def isWhiteSpace_def Let_def
      split: if_splits)

lemma isHexDigit_not_sign:
  "isHexDigit c \<Longrightarrow>
     c \<noteq> CHR ''+'' \<and> c \<noteq> CHR ''-'' \<and> c \<noteq> CHR ''x'' \<and> c \<noteq> CHR ''X''"
  by (auto simp: isHexDigit_def radixDigit_def digitValue_def Let_def split: if_splits)

lemma isHexDigit_zero: "isHexDigit CHR ''0''"
  by (simp add: isHexDigit_def radixDigit_def digitValue_def)

lemma foldl_digits_int:
  "foldl (\<lambda>acc c. acc * 16 + int (the (radixDigit 16 c))) (int a) z
     = int (foldl (\<lambda>acc d. acc * 16 + d) a (hexValues z))"
proof (induction z arbitrary: a)
  case Nil
  show ?case by (simp add: hexValues_def)
next
  case (Cons c z)
  have "int a * 16 + int (the (radixDigit 16 c)) = int (a * 16 + the (radixDigit 16 c))"
    by simp
  then show ?case
    using Cons.IH [of "a * 16 + the (radixDigit 16 c)"] by (simp add: hexValues_def)
qed

lemma parseInt_hex_digits:
  assumes "z \<noteq> []" and "\<forall>c\<in>set z. isHexDigit c"
  shows "parseInt z 16 = Some (int (foldl (\<lambda>acc d. acc * 16 + d) 0 (hexValues z)))"
proof -
  obtain c cs where z: "z = c # cs" using assms(1) by (cases z) auto
  have c: "isHexDigit c" using assms(2) z by simp
  have dw: "dropWhile isWhiteSpace z = z"
    using isHexDigit_not_ws [OF c] z by simp
  have pre: "take 2 z \<noteq> ''0x'' \<and> take 2 z \<noteq> ''0X''"
  proof (cases cs)
    case Nil
    then show ?thesis using z by simp
  next
    case (Cons c' cs')
    then have "isHexDigit c'" using assms(2) z by simp
    then show ?thesis using isHexDigit_not_sign [of c'] z Cons by auto
  qed
  have tw: "takeWhile (\<lambda>c. radixDigit 16 c \<noteq> None) z = z"
    using assms(2) by (simp add: isHexDigit_def)
  have hd: "hd z \<noteq> CHR ''+'' \<and> hd z \<noteq> CHR ''-''"
    using isHexDigit_not_sign [OF c] z by simp
  show ?thesis
    using foldl_digits_int [of 0 z] assms(1)
    by (simp add: parseInt_def Let_def dw pre tw hd del: not_None_eq)
qed

lemma foldl_digits_bound:
  "\<forall>d\<in>set vs. d < 16 \<Longrightarrow> foldl (\<lambda>acc d. acc * 16 + d) (0::nat) vs < 16 ^ length vs"
proof (induction vs rule: rev_induct)
  case Nil
  show ?case by simp
next
  case (snoc v vs)
  then have "foldl (\<lambda>acc d. acc * 16 + d) (0::nat) vs < 16 ^ length vs" and "v < 16"
    by simp_all
  then have "foldl (\<lambda>acc d. acc * 16 + d) 0 vs * 16 + v < 16 ^ length vs * 16" by arith
  then show ?case by simp
qed

lemma digits16_foldl:
  "\<forall>d\<in>set vs. d < 16 \<Longrightarrow>
     digits16 (length vs) (foldl (\<lambda>acc d. acc * 16 + d) 0 vs) = vs"
  by (induction vs rule: rev_induct) simp_all

lemma hexValues_bound: "\<forall>c\<in>set z. isHexDigit c \<Longrightarrow> \<forall>d\<in>set (hexValues z). d < 16"
  by (auto simp: hexValues_def isHexDigit_def radixDigit_def split: option.splits if_splits)

lemma take_drop_step: "take n (drop m xs) @ drop (m + n) xs = drop m xs"
  by (metis add.commute append_take_drop_id drop_drop)

lemma chunks_concat:
  assumes "length p = 64"
  shows "concat (map (\<lambda>i. slice_string p i (i + 8)) [0, 8, 16, 24, 32, 40, 48, 56]) = p"
proof -
  have "take 8 (drop 56 p) = drop 56 p" using assms by simp
  then show ?thesis
    using take_drop_step [of 8 48 p] take_drop_step [of 8 40 p] take_drop_step [of 8 32 p]
      take_drop_step [of 8 24 p] take_drop_step [of 8 16 p] take_drop_step [of 8 8 p]
      take_drop_step [of 8 0 p]
    by (simp add: slice_string_def)
qed

lemma cleanHex_digits:
  assumes "pre = [] \<or> pre = ''0x''" and "\<forall>c\<in>set ds. isHexDigit c"
  shows "(if startsWith (pre @ ds) ''0x'' then drop 2 (pre @ ds) else pre @ ds) = ds"
proof (cases "pre = []")
  case True
  have "\<not> startsWith ds ''0x''"
  proof
    assume "startsWith ds ''0x''"
    then have "take 2 ds = ''0x''" by (simp add: startsWith_def numeral_2_eq_2)
    then obtain cs where "ds = CHR ''0'' # CHR ''x'' # cs"
      by (cases ds; cases "tl ds") auto
    then have "isHexDigit CHR ''x''" using assms(2) by simp
    then show False using isHexDigit_not_sign [of "CHR ''x''"] by simp
  qed
  then show ?thesis using True by simp
next
  case False
  then have "pre = ''0x''" using assms(1) by simp
  then show ?thesis by (simp add: startsWith_def)
qed

lemma slice_chunk:
  assumes "length p = 64" and "\<forall>c\<in>set p. isHexDigit c" and "i \<le> 56"
  shows "length (slice_string p i (i + 8)) = 8
           \<and> (\<forall>c\<in>set (slice_string p i (i + 8)). isHexDigit c)"
proof -
  have "set (slice_string p i (i + 8)) \<subseteq> set p"
    unfolding slice_string_def by (metis set_drop_subset set_take_subset subset_trans)
  then show ?thesis using assms by (auto simp: slice_string_def)
qed

lemma chunk_value:
  assumes "length z = 8" and "\<forall>c\<in>set z. isHexDigit c"
  shows "\<exists>n. parseInt z 16 = Some n \<and> 0 \<le> n \<and> n < 2 ^ 32
             \<and> digits16 8 (nat n) = hexValues z"
proof -
  let ?v = "foldl (\<lambda>acc d. acc * 16 + d) 0 (hexValues z)"
  have ne: "z \<noteq> []" using assms(1) by auto
  have l: "length (hexValues z) = 8" using assms(1) by (simp add: hexValues_def)
  have b: "\<forall>d\<in>set (hexValues z). d < 16" using hexValues_bound [OF assms(2)] .
  have "?v < 16 ^ 8" using foldl_digits_bound [OF b] l by simp
  then have lt: "int ?v < 2 ^ 32" by simp
  have dg: "digits16 8 ?v = hexValues z" using digits16_foldl [OF b] l by simp
  show ?thesis
    using parseInt_hex_digits [OF ne assms(2)] lt dg by simp
qed

lemma chunk_values:
  assumes "\<forall>z\<in>set zs. length z = 8 \<and> (\<forall>c\<in>set z. isHexDigit c)"
  shows "\<exists>ns. map (\<lambda>z. parseInt z 16) zs = map Some ns
            \<and> (\<forall>n\<in>set ns. 0 \<le> n \<and> n < 2 ^ 32)
            \<and> concat (map (\<lambda>n. digits16 8 (nat n)) ns) = hexValues (concat zs)"
  using assms
proof (induction zs)
  case Nil
  show ?case by (simp add: hexValues_def)
next
  case (Cons z zs)
  then obtain ns where ns: "map (\<lambda>z. parseInt z 16) zs = map Some ns"
      "\<forall>n\<in>set ns. 0 \<le> n \<and> n < 2 ^ 32"
      "concat (map (\<lambda>n. digits16 8 (nat n)) ns) = hexValues (concat zs)"
    by auto
  from Cons.prems obtain n where n: "parseInt z 16 = Some n" "0 \<le> n" "n < 2 ^ 32"
      "digits16 8 (nat n) = hexValues z"
    using chunk_value [of z] by auto
  show ?case
    by (rule exI [of _ "n # ns"]) (use ns n in \<open>simp add: hexValues_def\<close>)
qed

text \<open>
  C8. For a text of at most 64 hexadecimal digits, with or without the prefix \<open>0x\<close>,
  \<open>hexToU32Array\<close> returns exactly 8 integers, none of them \<open>NaN\<close>, each in
  \<open>[0, 2^32)\<close>; writing each as 8 hexadecimal digits, most significant first, and
  concatenating gives the digits of the input padded on the left with zeros to 64 digits
  (digits are compared by value, so the case of the letters does not matter).
  \<open>parseCommitmentForContract\<close> of any commitment is \<open>hexToU32Array\<close> of it.
\<close>

theorem hexToU32Array_words:
  assumes "hex = pre @ ds" and "pre = [] \<or> pre = ''0x''"
    and "\<forall>c\<in>set ds. isHexDigit c" and "length ds \<le> 64"
  shows "(\<exists>ns. hexToU32Array hex = map Some ns \<and> length ns = 8
             \<and> (\<forall>n\<in>set ns. 0 \<le> n \<and> n < 2 ^ 32)
             \<and> concat (map (\<lambda>n. digits16 8 (nat n)) ns)
                 = hexValues (padStart ds 64 CHR ''0''))
         \<and> parseCommitmentForContract commitment = hexToU32Array commitment"
proof -
  let ?p = "padStart ds 64 CHR ''0''"
  let ?zs = "map (\<lambda>i. slice_string ?p i (i + 8)) [0, 8, 16, 24, 32, 40, 48, 56]"
  have lp: "length ?p = 64" using assms(4) by (simp add: padStart_def)
  have hp: "\<forall>c\<in>set ?p. isHexDigit c"
    using assms(3) isHexDigit_zero by (auto simp: padStart_def)
  have run: "hexToU32Array hex = map (\<lambda>z. parseInt z 16) ?zs"
    using cleanHex_digits [OF assms(2,3)] assms(1)
    by (simp add: hexToU32Array_def Let_def chunks_loop_unroll)
  have zs: "\<forall>z\<in>set ?zs. length z = 8 \<and> (\<forall>c\<in>set z. isHexDigit c)"
    using slice_chunk [OF lp hp, of 0] slice_chunk [OF lp hp, of 8] slice_chunk [OF lp hp, of 16]
      slice_chunk [OF lp hp, of 24] slice_chunk [OF lp hp, of 32] slice_chunk [OF lp hp, of 40]
      slice_chunk [OF lp hp, of 48] slice_chunk [OF lp hp, of 56]
    by simp
  obtain ns where ns: "map (\<lambda>z. parseInt z 16) ?zs = map Some ns"
      "\<forall>n\<in>set ns. 0 \<le> n \<and> n < 2 ^ 32"
      "concat (map (\<lambda>n. digits16 8 (nat n)) ns) = hexValues (concat ?zs)"
    using chunk_values [OF zs] by blast
  have l8: "length ns = 8" using arg_cong [OF ns(1), of length] by simp
  have cc: "concat ?zs = ?p" using chunks_concat [OF lp] .
  have "hexToU32Array hex = map Some ns" using run ns(1) by (rule trans)
  moreover have "concat (map (\<lambda>n. digits16 8 (nat n)) ns) = hexValues ?p"
    using ns(3) cc by (rule back_subst [of "\<lambda>x. _ = hexValues x"])
  ultimately have "\<exists>ns. hexToU32Array hex = map Some ns \<and> length ns = 8
             \<and> (\<forall>n\<in>set ns. 0 \<le> n \<and> n < 2 ^ 32)
             \<and> concat (map (\<lambda>n. digits16 8 (nat n)) ns) = hexValues ?p"
    using l8 ns(2) by blast
  then show ?thesis by (simp add: parseCommitmentForContract_def)
qed

theorem hexToU32Array_words_witness:
  "(\<exists>ns. hexToU32Array ''0x1234abCD00000001'' = map Some ns \<and> length ns = 8
        \<and> (\<forall>n\<in>set ns. 0 \<le> n \<and> n < 2 ^ 32)
        \<and> concat (map (\<lambda>n. digits16 8 (nat n)) ns)
            = hexValues (padStart ''1234abCD00000001'' 64 CHR ''0''))
   \<and> parseCommitmentForContract ''0x1234abCD00000001'' = hexToU32Array ''0x1234abCD00000001''"
  by (rule hexToU32Array_words [of _ "''0x''" "''1234abCD00000001''"])
     (simp_all add: isHexDigit_def radixDigit_def digitValue_def)

lemma hexToU32Array_example:
  "hexToU32Array ''0x1234abCD00000001''
     = [Some 0, Some 0, Some 0, Some 0, Some 0, Some 0, Some 0x1234abcd, Some 1]"
  by code_simp

section \<open>Properties of \<open>POST /api/appointments\<close>\<close>

lemma update_user_role_tables:
  assumes "update_user_role db userId role = Some db'"
  shows "db_appointments db' = db_appointments db \<and> db_doctors db' = db_doctors db
           \<and> db_patients db' = db_patients db \<and> db_prescriptions db' = db_prescriptions db"
  using assms by (auto simp: update_user_role_def split: option.splits)

lemma update_user_role_defined:
  assumes "has_account db user"
  shows "\<exists>db'. update_user_role (db\<lparr>db_patients := ps\<rparr>) (su_id user) role = Some db'"
  using assms by (auto simp: update_user_role_def has_account_def split: option.splits)

lemma book_appointment_conflict:
  assumes "find_doctor_by_id db (ab_doctorId body) \<noteq> None"
    and "rt_Date_parse rt (ab_startTime body) = Some startTime"
    and "rt_Date_parse rt (ab_endTime body) = Some endTime"
    and "existing \<in> set (db_appointments db)"
    and "conflicting (ab_doctorId body) (pat_id patient) startTime endTime existing"
  shows "book_appointment rt db body patient
           = (\<lparr>res_status = 409, res_body = Text ''Time slot not available''\<rparr>, db)"
proof -
  have "find (conflicting (ab_doctorId body) (pat_id patient) startTime endTime)
          (db_appointments db) \<noteq> None"
    using assms(4,5) by (auto simp: find_None_iff)
  then show ?thesis
    using assms(1,2,3) by (auto simp: book_appointment_def split: option.splits)
qed

lemma book_appointment_created:
  assumes "book_appointment rt db body patient = (res, db')" and "res_status res = 200"
  shows "\<exists>appointment doctor.
            db_appointments db' = db_appointments db @ [appointment]
          \<and> db_doctors db' = db_doctors db \<and> db_patients db' = db_patients db
          \<and> res_body res = AppointmentCreated appointment
          \<and> app_doctorId appointment = ab_doctorId body
          \<and> app_patientId appointment = pat_id patient
          \<and> find_doctor_by_id db (ab_doctorId body) = Some doctor"
  using assms
  by (auto simp: book_appointment_def server_error_def Let_def split: option.splits)

text \<open>
  C4. An authenticated request (the session user has an account) with a valid body (the
  schema accepts it and both dates are valid) for an existing doctor is answered with 409,
  and the appointment table is left as it was, whenever an appointment of that doctor or
  of the requesting patient is \<open>PENDING\<close> or \<open>CONFIRMED\<close> and overlaps the requested range.
\<close>

theorem appointment_conflict_409:
  assumes "req_user req = Some user" and "has_account db user"
    and "req_json req = Some j" and "appointmentSchema (rt_is_datetime rt) j = Some body"
    and "rt_Date_parse rt (ab_startTime body) = Some startTime"
    and "rt_Date_parse rt (ab_endTime body) = Some endTime"
    and "find_doctor_by_id db (ab_doctorId body) \<noteq> None"
    and "existing \<in> set (db_appointments db)"
    and "app_doctorId existing = ab_doctorId body
           \<or> app_patientId existing = pat_id (requesting_patient rt db user)"
    and "app_status existing = PENDING \<or> app_status existing = CONFIRMED"
    and "overlaps existing startTime endTime"
  shows "res_status (fst (POST_appointments rt db req)) = 409
           \<and> db_appointments (snd (POST_appointments rt db req)) = db_appointments db"
proof (cases "find_patient_by_user db (su_id user)")
  case (Some patient)
  then have rp: "requesting_patient rt db user = patient"
    by (simp add: requesting_patient_def)
  have c: "conflicting (ab_doctorId body) (pat_id patient) startTime endTime existing"
    using assms(9,10,11) rp by (auto simp: conflicting_def overlaps_def)
  have "book_appointment rt db body patient
           = (\<lparr>res_status = 409, res_body = Text ''Time slot not available''\<rparr>, db)"
    using book_appointment_conflict [OF assms(7) assms(5) assms(6) assms(8) c] .
  then show ?thesis
    using assms(1,3,4) Some by (simp add: POST_appointments_def)
next
  case None
  let ?patient = "default_patient rt user"
  let ?db1 = "db\<lparr>db_patients := db_patients db @ [?patient]\<rparr>"
  have rp: "requesting_patient rt db user = ?patient"
    using None by (simp add: requesting_patient_def)
  obtain db2 where db2: "update_user_role ?db1 (su_id user) ''patient'' = Some db2"
    using update_user_role_defined [OF assms(2)] by blast
  have tabs: "db_appointments db2 = db_appointments db" "db_doctors db2 = db_doctors db"
    using update_user_role_tables [OF db2] by simp_all
  have doc: "find_doctor_by_id db2 (ab_doctorId body) \<noteq> None"
    using assms(7) tabs(2) by (simp add: find_doctor_by_id_def)
  have ex: "existing \<in> set (db_appointments db2)" using assms(8) tabs(1) by simp
  have c: "conflicting (ab_doctorId body) (pat_id ?patient) startTime endTime existing"
    using assms(9,10,11) rp by (auto simp: conflicting_def overlaps_def)
  have "book_appointment rt db2 body ?patient
           = (\<lparr>res_status = 409, res_body = Text ''Time slot not available''\<rparr>, db2)"
    using book_appointment_conflict [OF doc assms(5) assms(6) ex c] .
  then show ?thesis
    using assms(1,3,4) None db2 tabs(1) by (simp add: POST_appointments_def Let_def)
qed

theorem appointment_conflict_409_witness:
  "res_status (fst (POST_appointments example_runtime example_db example_appointment_request)) = 409
     \<and> db_appointments (snd (POST_appointments example_runtime example_db example_appointment_request))
         = db_appointments example_db"
proof (rule appointment_conflict_409
    [where user = "\<lparr>su_id = ''u1''\<rparr>"
       and j = "JObj [(''doctorId'', JStr ''d1''),
                      (''startTime'', JStr ''2024-01-01T10:00:00.000Z''),
                      (''endTime'', JStr ''2024-01-01T11:00:00.000Z'')]"
       and body = "\<lparr>ab_doctorId = ''d1'', ab_startTime = ''2024-01-01T10:00:00.000Z'',
                     ab_endTime = ''2024-01-01T11:00:00.000Z''\<rparr>"
       and startTime = 1704103200000 and endTime = 1704106800000
       and existing = "\<lparr>app_id = ''a1'', app_doctorId = ''d1'', app_patientId = ''p9'',
          app_startTime = 1704105000000, app_endTime = 1704108600000, app_status = CONFIRMED\<rparr>"])
  show "req_user example_appointment_request = Some \<lparr>su_id = ''u1''\<rparr>"
    by (simp add: example_appointment_request_def)
  show "has_account example_db \<lparr>su_id = ''u1''\<rparr>"
    by (simp add: has_account_def example_db_def)
  show "req_json example_appointment_request =
      Some (JObj [(''doctorId'', JStr ''d1''),
                  (''startTime'', JStr ''2024-01-01T10:00:00.000Z''),
                  (''endTime'', JStr ''2024-01-01T11:00:00.000Z'')])"
    by (simp add: example_appointment_request_def)
  show "appointmentSchema (rt_is_datetime example_runtime)
      (JObj [(''doctorId'', JStr ''d1''),
             (''startTime'', JStr ''2024-01-01T10:00:00.000Z''),
             (''endTime'', JStr ''2024-01-01T11:00:00.000Z'')])
      = Some \<lparr>ab_doctorId = ''d1'', ab_startTime = ''2024-01-01T10:00:00.000Z'',
                ab_endTime = ''2024-01-01T11:00:00.000Z''\<rparr>"
    by (simp add: appointmentSchema_def example_runtime_def)
qed (simp_all add: example_runtime_def example_db_def find_doctor_by_id_def overlaps_def)

section \<open>Properties of \<open>POST /api/prescriptions\<close>\<close>

text \<open>
  C6. The handler makes its checks in this order. Without a session user the status is
  401. With a session user who has no doctor profile the status is 403. When the body
  fails schema validation, that is when the handler reaches \<open>prescriptionCreateSchema.parse\<close>
  (the user is a doctor and \<open>req.json()\<close> has returned) and the schema rejects the
  value, the status is 422. In all three cases the database is left as it was, so no
  prescription is created.
\<close>

theorem prescription_post_errors:
  "(req_user req = None \<longrightarrow>
       res_status (fst (POST_prescriptions rt db req)) = 401
     \<and> snd (POST_prescriptions rt db req) = db)
 \<and> (req_user req = Some user \<and> find_doctor_by_user db (su_id user) = None \<longrightarrow>
       res_status (fst (POST_prescriptions rt db req)) = 403
     \<and> snd (POST_prescriptions rt db req) = db)
 \<and> (req_user req = Some user \<and> find_doctor_by_user db (su_id user) = Some doctor
       \<and> req_json req = Some j \<and> prescriptionCreateSchema (rt_is_datetime rt) j = None \<longrightarrow>
       res_status (fst (POST_prescriptions rt db req)) = 422
     \<and> snd (POST_prescriptions rt db req) = db)"
  by (simp add: POST_prescriptions_def)

theorem prescription_post_errors_witness:
  "res_status (fst (POST_prescriptions example_runtime example_db
       (example_prescription_request\<lparr>req_user := None\<rparr>))) = 401
 \<and> res_status (fst (POST_prescriptions example_runtime example_db
       (example_prescription_request\<lparr>req_user := Some \<lparr>su_id = ''u1''\<rparr>\<rparr>))) = 403
 \<and> res_status (fst (POST_prescriptions example_runtime example_db
       (example_prescription_request\<lparr>req_json := Some (JObj [(''patientId'', JStr [])])\<rparr>))) = 422
 \<and> snd (POST_prescriptions example_runtime example_db
       (example_prescription_request\<lparr>req_json := Some (JObj [(''patientId'', JStr [])])\<rparr>))
     = example_db"
proof -
  let ?doctor = "\<lparr>doc_id = ''d1'', doc_userId = ''u2'', doc_blockId = ''0xbb'', doc_verified = True,
          doc_specialization = ''ENT'', doc_licenseNumber = ''L1''\<rparr>"
  have a: "req_user (example_prescription_request\<lparr>req_user := None\<rparr>) = None" by simp
  have b: "req_user (example_prescription_request\<lparr>req_user := Some \<lparr>su_id = ''u1''\<rparr>\<rparr>)
        = Some \<lparr>su_id = ''u1''\<rparr>
      \<and> find_doctor_by_user example_db (su_id \<lparr>su_id = ''u1''\<rparr>) = None"
    by (simp add: find_doctor_by_user_def example_db_def)
  have c: "req_user (example_prescription_request\<lparr>req_json := Some (JObj [(''patientId'', JStr [])])\<rparr>)
        = Some \<lparr>su_id = ''u2''\<rparr>
      \<and> find_doctor_by_user example_db (su_id \<lparr>su_id = ''u2''\<rparr>) = Some ?doctor
      \<and> req_json (example_prescription_request\<lparr>req_json := Some (JObj [(''patientId'', JStr [])])\<rparr>)
        = Some (JObj [(''patientId'', JStr [])])
      \<and> prescriptionCreateSchema (rt_is_datetime example_runtime) (JObj [(''patientId'', JStr [])])
        = None"
    by (simp add: find_doctor_by_user_def example_db_def example_prescription_request_def
        prescriptionCreateSchema_def nonempty_string_def)
  show ?thesis
    using a b c
      prescription_post_errors [of "example_prescription_request\<lparr>req_user := None\<rparr>"
        example_runtime example_db]
      prescription_post_errors [of "example_prescription_request\<lparr>req_user := Some \<lparr>su_id = ''u1''\<rparr>\<rparr>"
        example_runtime example_db "\<lparr>su_id = ''u1''\<rparr>"]
      prescription_post_errors
        [of "example_prescription_request\<lparr>req_json := Some (JObj [(''patientId'', JStr [])])\<rparr>"
          example_runtime example_db "\<lparr>su_id = ''u2''\<rparr>" ?doctor
          "JObj [(''patientId'', JStr [])]"]
    by blast
qed

lemma POST_prescriptions_created:
  assumes "POST_prescriptions rt db req = (res, db')" and "res_status res = 200"
  shows "\<exists>user doctor j body valid.
            req_user req = Some user
          \<and> find_doctor_by_user db (su_id user) = Some doctor
          \<and> req_json req = Some j
          \<and> prescriptionCreateSchema (rt_is_datetime rt) j = Some body
          \<and> (case pb_validTill body of
                None \<Rightarrow> TimeClip (rt_now rt + 30 * 24 * 60 * 60 * 1000)
              | Some s \<Rightarrow> if truthy s then rt_Date_parse rt s
                          else TimeClip (rt_now rt + 30 * 24 * 60 * 60 * 1000)) = Some valid
          \<and> db' = db\<lparr>db_prescriptions := db_prescriptions db @
                [\<lparr>pr_id = rt_new_prescription_id rt,
                  pr_doctorId = doc_id doctor,
                  pr_patientId = pb_patientId body,
                  pr_issueDate = rt_db_now rt,
                  pr_validTill = valid,
                  pr_medications = map medication_of_input (pb_medications body)\<rparr>]\<rparr>"
  using assms
  by (auto simp: POST_prescriptions_def failed_to_create_def Let_def split: option.splits)

lemma POST_appointments_created:
  assumes "POST_appointments rt db req = (res, db')" and "res_status res = 200"
  shows "\<exists>user j body appointment doctor.
            req_user req = Some user
          \<and> req_json req = Some j
          \<and> appointmentSchema (rt_is_datetime rt) j = Some body
          \<and> db_appointments db' = db_appointments db @ [appointment]
          \<and> app_doctorId appointment = ab_doctorId body
          \<and> find_doctor_by_id db (ab_doctorId body) = Some doctor
          \<and> app_patientId appointment = pat_id (requesting_patient rt db user)
          \<and> requesting_patient rt db user \<in> set (db_patients db')"
proof -
  obtain user j body where u: "req_user req = Some user" and j: "req_json req = Some j"
    and b: "appointmentSchema (rt_is_datetime rt) j = Some body"
    using assms by (auto simp: POST_appointments_def server_error_def split: option.splits)
  show ?thesis
  proof (cases "find_patient_by_user db (su_id user)")
    case (Some patient)
    then have rp: "requesting_patient rt db user = patient"
      by (simp add: requesting_patient_def)
    have mem: "patient \<in> set (db_patients db)"
      using Some unfolding find_patient_by_user_def by (auto simp: find_Some_iff)
    have "book_appointment rt db body patient = (res, db')"
      using assms(1) u j b Some by (simp add: POST_appointments_def)
    from book_appointment_created [OF this assms(2)] show ?thesis
      using u j b rp mem by auto
  next
    case None
    let ?patient = "default_patient rt user"
    let ?db1 = "db\<lparr>db_patients := db_patients db @ [?patient]\<rparr>"
    have rp: "requesting_patient rt db user = ?patient"
      using None by (simp add: requesting_patient_def)
    obtain db2 where db2: "update_user_role ?db1 (su_id user) ''patient'' = Some db2"
      and run: "book_appointment rt db2 body ?patient = (res, db')"
      using assms u j b None
      by (auto simp: POST_appointments_def server_error_def Let_def split: option.splits)
    have tabs: "db_appointments db2 = db_appointments db" "db_doctors db2 = db_doctors db"
      "db_patients db2 = db_patients db @ [?patient]"
      using update_user_role_tables [OF db2] by simp_all
    from book_appointment_created [OF run assms(2)] show ?thesis
      using u j b rp tabs by (auto simp: find_doctor_by_id_def)
  qed
qed

text \<open>
  C7. A successful \<open>POST /api/prescriptions\<close> appends one row whose \<open>doctorId\<close> is the id
  of the doctor profile of the session user and whose \<open>patientId\<close> is the \<open>patientId\<close> of the
  body. A successful \<open>POST /api/appointments\<close> appends one row whose \<open>doctorId\<close> is the
  requested one, the id of an existing doctor, and whose \<open>patientId\<close> is the id of the
  requesting user's patient profile, which is in the patient table afterwards. Each row
  has one field for each of the two references.
\<close>

theorem created_rows_reference_doctor_and_patient:
  "(POST_prescriptions rt db req = (res, db') \<and> res_status res = 200 \<longrightarrow>
      (\<exists>user doctor j body prescription.
          req_user req = Some user
        \<and> find_doctor_by_user db (su_id user) = Some doctor
        \<and> req_json req = Some j
        \<and> prescriptionCreateSchema (rt_is_datetime rt) j = Some body
        \<and> db_prescriptions db' = db_prescriptions db @ [prescription]
        \<and> pr_doctorId prescription = doc_id doctor
        \<and> pr_patientId prescription = pb_patientId body))
 \<and> (POST_appointments rt db req = (res, db') \<and> res_status res = 200 \<longrightarrow>
      (\<exists>user j body appointment doctor.
          req_user req = Some user
        \<and> req_json req = Some j
        \<and> appointmentSchema (rt_is_datetime rt) j = Some body
        \<and> db_appointments db' = db_appointments db @ [appointment]
        \<and> app_doctorId appointment = ab_doctorId body
        \<and> find_doctor_by_id db (ab_doctorId body) = Some doctor
        \<and> app_patientId appointment = pat_id (requesting_patient rt db user)
        \<and> requesting_patient rt db user \<in> set (db_patients db')))"
proof (intro conjI impI)
  assume a: "POST_prescriptions rt db req = (res, db') \<and> res_status res = 200"
  from POST_prescriptions_created [of rt db req res db'] a
  obtain user doctor j body valid where
    "req_user req = Some user" "find_doctor_by_user db (su_id user) = Some doctor"
    "req_json req = Some j" "prescriptionCreateSchema (rt_is_datetime rt) j = Some body"
    "db' = db\<lparr>db_prescriptions := db_prescriptions db @
                [\<lparr>pr_id = rt_new_prescription_id rt,
                  pr_doctorId = doc_id doctor,
                  pr_patientId = pb_patientId body,
                  pr_issueDate = rt_db_now rt,
                  pr_validTill = valid,
                  pr_medications = map medication_of_input (pb_medications body)\<rparr>]\<rparr>"
    by blast
  then show "\<exists>user doctor j body prescription.
          req_user req = Some user
        \<and> find_doctor_by_user db (su_id user) = Some doctor
        \<and> req_json req = Some j
        \<and> prescriptionCreateSchema (rt_is_datetime rt) j = Some body
        \<and> db_prescriptions db' = db_prescriptions db @ [prescription]
        \<and> pr_doctorId prescription = doc_id doctor
        \<and> pr_patientId prescription = pb_patientId body"
    by auto
next
  assume "POST_appointments rt db req = (res, db') \<and> res_status res = 200"
  then show "\<exists>user j body appointment doctor.
          req_user req = Some user
        \<and> req_json req = Some j
        \<and> appointmentSchema (rt_is_datetime rt) j = Some body
        \<and> db_appointments db' = db_appointments db @ [appointment]
        \<and> app_doctorId appointment = ab_doctorId body
        \<and> find_doctor_by_id db (ab_doctorId body) = Some doctor
        \<and> app_patientId appointment = pat_id (requesting_patient rt db user)
        \<and> requesting_patient rt db user \<in> set (db_patients db')"
    using POST_appointments_created [of rt db req res db'] by blast
qed

lemma example_prescription_status:
  "res_status (fst (POST_prescriptions example_runtime example_db example_prescription_request))
     = 200"
  by code_simp

lemma example_appointment_status:
  "res_status (fst (POST_appointments example_runtime (example_db\<lparr>db_appointments := []\<rparr>)
      example_appointment_request)) = 200"
  by code_simp

theorem created_rows_reference_doctor_and_patient_witness:
  "(\<exists>user doctor j body prescription.
          req_user example_prescription_request = Some user
        \<and> find_doctor_by_user example_db (su_id user) = Some doctor
        \<and> req_json example_prescription_request = Some j
        \<and> prescriptionCreateSchema (rt_is_datetime example_runtime) j = Some body
        \<and> db_prescriptions
             (snd (POST_prescriptions example_runtime example_db example_prescription_request))
           = db_prescriptions example_db @ [prescription]
        \<and> pr_doctorId prescription = doc_id doctor
        \<and> pr_patientId prescription = pb_patientId body)
 \<and> (\<exists>user j body appointment doctor.
          req_user example_appointment_request = Some user
        \<and> req_json example_appointment_request = Some j
        \<and> appointmentSchema (rt_is_datetime example_runtime) j = Some body
        \<and> db_appointments
             (snd (POST_appointments example_runtime (example_db\<lparr>db_appointments := []\<rparr>)
                example_appointment_request))
           = db_appointments (example_db\<lparr>db_appointments := []\<rparr>) @ [appointment]
        \<and> app_doctorId appointment = ab_doctorId body
        \<and> find_doctor_by_id (example_db\<lparr>db_appointments := []\<rparr>) (ab_doctorId body) = Some doctor
        \<and> app_patientId appointment
           = pat_id (requesting_patient example_runtime (example_db\<lparr>db_appointments := []\<rparr>) user)
        \<and> requesting_patient example_runtime (example_db\<lparr>db_appointments := []\<rparr>) user
           \<in> set (db_patients
                (snd (POST_appointments example_runtime (example_db\<lparr>db_appointments := []\<rparr>)
                   example_appointment_request))))"
  using
    created_rows_reference_doctor_and_patient
      [of example_runtime example_db example_prescription_request
        "fst (POST_prescriptions example_runtime example_db example_prescription_request)"
        "snd (POST_prescriptions example_runtime example_db example_prescription_request)"]
    created_rows_reference_doctor_and_patient
      [of example_runtime "example_db\<lparr>db_appointments := []\<rparr>" example_appointment_request
        "fst (POST_appointments example_runtime (example_db\<lparr>db_appointments := []\<rparr>)
            example_appointment_request)"
        "snd (POST_appointments example_runtime (example_db\<lparr>db_appointments := []\<rparr>)
            example_appointment_request)"]
    example_prescription_status example_appointment_status
  by (simp only: prod.collapse simp_thms)

section \<open>The thirty days of validity\<close>

lemma chain_view_fields:
  assumes "chain_view pd doctorInfo patientInfo = Some v"
  shows "pv_issueDate v = int (cp_issueDate pd) * 1000
       \<and> pv_validTill v = pv_issueDate v + 30 * 24 * 60 * 60 * 1000
       \<and> pv_id v = digits10 (cp_id pd) \<and> pv_blockchainOnly v"
  using assms by (auto simp: chain_view_def TimeClip_def split: option.splits if_splits)

lemma fetch_entry_cases:
  "fetch_entry contract userAddress isDoctor i = []
   \<or> (\<exists>pd doctorInfo patientInfo v.
           c_prescriptions contract i = Returns pd \<and> cp_id pd \<noteq> 0
         \<and> chain_view pd doctorInfo patientInfo = Some v
         \<and> fetch_entry contract userAddress isDoctor i = [v])"
  by (simp add: fetch_entry_def Let_def split: call.split option.split) blast

lemma fetch_entry_views:
  assumes "v \<in> set (fetch_entry contract userAddress isDoctor i)"
  shows "\<exists>pd doctorInfo patientInfo.
           c_prescriptions contract i = Returns pd \<and> cp_id pd \<noteq> 0
         \<and> chain_view pd doctorInfo patientInfo = Some v"
  using assms fetch_entry_cases [of contract userAddress isDoctor i]
  by (elim disjE exE conjE) (simp, simp, blast)

lemma fetch_loop_views:
  assumes "v \<in> set (fetch_loop contract userAddress isDoctor counter i acc)"
  shows "v \<in> set acc \<or> (\<exists>k. v \<in> set (fetch_entry contract userAddress isDoctor k))"
  using assms
proof (induction contract userAddress isDoctor counter i acc rule: fetch_loop.induct)
  case (1 contract userAddress isDoctor counter i prescriptions)
  show ?case
  proof (cases "i \<le> counter")
    case True
    then have "v \<in> set (fetch_loop contract userAddress isDoctor counter (i + 1)
                          (prescriptions @ fetch_entry contract userAddress isDoctor i))"
      using "1.prems" by (simp add: fetch_loop.simps [of _ _ _ _ i])
    from "1.IH" [OF True this] show ?thesis by auto
  next
    case False
    then show ?thesis using "1.prems" by (simp add: fetch_loop.simps [of _ _ _ _ i])
  qed
qed

lemma fetchAll_views:
  assumes "v \<in> set (fetchAllPrescriptionsFromBlockchain provider userAddress isDoctor)"
  shows "\<exists>contract k pd doctorInfo patientInfo.
           provider = Returns contract \<and> c_prescriptions contract k = Returns pd
         \<and> cp_id pd \<noteq> 0 \<and> chain_view pd doctorInfo patientInfo = Some v"
proof -
  obtain contract counter where p: "provider = Returns contract"
    and "v \<in> set (fetch_loop contract userAddress isDoctor counter 1 [])"
    using assms
    by (auto simp: fetchAllPrescriptionsFromBlockchain_def split: call.splits)
  then obtain k where "v \<in> set (fetch_entry contract userAddress isDoctor k)"
    using fetch_loop_views by fastforce
  from fetch_entry_views [OF this] p show ?thesis by blast
qed

lemma fetchOne_views:
  assumes "fetchPrescriptionFromBlockchain provider prescriptionId userAddress = Some v"
  shows "\<exists>contract k pd doctorInfo patientInfo.
           provider = Returns contract \<and> c_prescriptions contract k = Returns pd
         \<and> cp_id pd \<noteq> 0 \<and> chain_view pd doctorInfo patientInfo = Some v"
  using assms
  by (auto simp: fetchPrescriptionFromBlockchain_def Let_def
      split: call.splits option.splits if_splits)

lemma schema_without_validTill:
  assumes "prescriptionCreateSchema is_datetime (JObj kvs) = Some body"
    and "map_of kvs ''validTill'' = None"
  shows "pb_validTill body = None"
  using assms
  by (auto simp: prescriptionCreateSchema_def optional_string_def split: option.splits)

lemma POST_prescriptions_default_validTill:
  assumes "POST_prescriptions rt db req = (res, db')" and "res_status res = 200"
    and "req_json req = Some (JObj kvs)" and "map_of kvs ''validTill'' = None"
  shows "\<exists>prescription.
          db_prescriptions db' = db_prescriptions db @ [prescription]
        \<and> pr_validTill prescription = rt_now rt + 30 * 24 * 60 * 60 * 1000"
proof -
  obtain user doctor where u: "req_user req = Some user"
    and d: "find_doctor_by_user db (su_id user) = Some doctor"
    using assms(1,2) by (auto simp: POST_prescriptions_def split: option.splits)
  obtain body where b: "prescriptionCreateSchema (rt_is_datetime rt) (JObj kvs) = Some body"
    using assms(1,2,3) u d by (auto simp: POST_prescriptions_def split: option.splits)
  have n: "pb_validTill body = None" using schema_without_validTill [OF b assms(4)] .
  show ?thesis
    using assms(1,2,3) u d b n
    by (auto simp: POST_prescriptions_def failed_to_create_def Let_def TimeClip_def
        split: if_splits)
qed

lemma chain_view_returns:
  assumes "dates_valid pd"
  shows "\<exists>v. chain_view pd doctorInfo patientInfo = Some v"
  using assms by (simp add: chain_view_def TimeClip_def dates_valid_def)

lemma fetchOne_returns:
  assumes "provider = Returns contract" and "parseInt prescriptionId 0 = Some n"
    and "0 \<le> n" and "n \<le> 2 ^ 53 - 1"
    and "c_prescriptions contract (nat n) = Returns pd" and "cp_id pd \<noteq> 0"
    and "c_doctors contract (cp_doctorAddress pd) = Returns doctorInfo"
    and "c_patients contract (cp_patientAddress pd) = Returns patientInfo"
    and "may_read userAddress pd"
  shows "fetchPrescriptionFromBlockchain provider prescriptionId userAddress
           = chain_view pd doctorInfo patientInfo"
proof (cases userAddress)
  case None
  then show ?thesis
    using assms(1-8) by (simp add: fetchPrescriptionFromBlockchain_def)
next
  case (Some a)
  then show ?thesis
    using assms by (auto simp: fetchPrescriptionFromBlockchain_def may_read_def truthy_def)
qed

lemma fetch_entry_returns:
  assumes "c_prescriptions contract k = Returns pd" and "cp_id pd \<noteq> 0"
    and "c_doctors contract (cp_doctorAddress pd) = Returns doctorInfo"
    and "c_patients contract (cp_patientAddress pd) = Returns patientInfo"
    and "is_listed userAddress isDoctor pd"
    and "chain_view pd doctorInfo patientInfo = Some v"
  shows "fetch_entry contract userAddress isDoctor k = [v]"
proof (cases userAddress)
  case None
  then show ?thesis
    using assms(1-4,6) by (simp add: fetch_entry_def)
next
  case (Some a)
  then show ?thesis
    using assms
    by (auto simp: fetch_entry_def is_listed_def truthy_def Let_def split: if_splits)
qed

lemma fetch_loop_keeps:
  "set acc \<subseteq> set (fetch_loop contract userAddress isDoctor counter i acc)"
proof (induction contract userAddress isDoctor counter i acc rule: fetch_loop.induct)
  case (1 contract userAddress isDoctor counter i prescriptions)
  show ?case
  proof (cases "i \<le> counter")
    case True
    from "1.IH" [OF True] show ?thesis
      by (subst fetch_loop.simps) (simp add: True)
  next
    case False
    then show ?thesis by (subst fetch_loop.simps) simp
  qed
qed

lemma fetch_loop_visits:
  assumes "i \<le> k" and "k \<le> counter"
  shows "set (fetch_entry contract userAddress isDoctor k)
           \<subseteq> set (fetch_loop contract userAddress isDoctor counter i acc)"
  using assms
proof (induction contract userAddress isDoctor counter i acc rule: fetch_loop.induct)
  case (1 contract userAddress isDoctor counter i prescriptions)
  from "1.prems" have le: "i \<le> counter" by simp
  have step: "fetch_loop contract userAddress isDoctor counter i prescriptions
      = fetch_loop contract userAddress isDoctor counter (i + 1)
          (prescriptions @ fetch_entry contract userAddress isDoctor i)"
    by (subst fetch_loop.simps) (simp add: le)
  show ?case
  proof (cases "i = k")
    case True
    have "set (prescriptions @ fetch_entry contract userAddress isDoctor i)
        \<subseteq> set (fetch_loop contract userAddress isDoctor counter (i + 1)
            (prescriptions @ fetch_entry contract userAddress isDoctor i))"
      by (rule fetch_loop_keeps)
    then show ?thesis unfolding step using True by simp
  next
    case False
    then have "i + 1 \<le> k" using "1.prems"(1) by simp
    from "1.IH" [OF le this "1.prems"(2)] show ?thesis unfolding step .
  qed
qed

lemma fetchAll_returns:
  assumes "provider = Returns contract" and "c_prescriptionCounter contract = Returns counter"
    and "1 \<le> k" and "k \<le> counter"
    and "c_prescriptions contract k = Returns pd" and "cp_id pd \<noteq> 0"
    and "c_doctors contract (cp_doctorAddress pd) = Returns doctorInfo"
    and "c_patients contract (cp_patientAddress pd) = Returns patientInfo"
    and "is_listed userAddress isDoctor pd"
    and "chain_view pd doctorInfo patientInfo = Some v"
  shows "v \<in> set (fetchAllPrescriptionsFromBlockchain provider userAddress isDoctor)"
proof -
  have "fetch_entry contract userAddress isDoctor k = [v]"
    using assms(5-10) by (rule fetch_entry_returns)
  then have "v \<in> set (fetch_loop contract userAddress isDoctor counter 1 [])"
    using fetch_loop_visits [OF assms(3,4), of contract userAddress isDoctor "[]"] by auto
  then show ?thesis
    using assms(1,2) by (simp add: fetchAllPrescriptionsFromBlockchain_def)
qed

lemma POST_prescriptions_stores_default:
  assumes "req_user req = Some user" and "find_doctor_by_user db (su_id user) = Some doctor"
    and "req_json req = Some (JObj kvs)" and "map_of kvs ''validTill'' = None"
    and "prescriptionCreateSchema (rt_is_datetime rt) (JObj kvs) = Some body"
    and "\<bar>rt_now rt + 30 * 24 * 60 * 60 * 1000\<bar> \<le> 8640000000000000"
  shows "res_status (fst (POST_prescriptions rt db req)) = 200
       \<and> db_prescriptions (snd (POST_prescriptions rt db req)) = db_prescriptions db @
           [\<lparr>pr_id = rt_new_prescription_id rt, pr_doctorId = doc_id doctor,
             pr_patientId = pb_patientId body, pr_issueDate = rt_db_now rt,
             pr_validTill = rt_now rt + 30 * 24 * 60 * 60 * 1000,
             pr_medications = map medication_of_input (pb_medications body)\<rparr>]"
proof -
  have n: "pb_validTill body = None" using schema_without_validTill [OF assms(5,4)] .
  show ?thesis
    using assms(1,2,3,5,6) n by (simp add: POST_prescriptions_def TimeClip_def Let_def)
qed

text \<open>
  C10. A prescription created by \<open>POST /api/prescriptions\<close> from a body without the
  field \<open>validTill\<close> has \<open>validTill\<close> equal to the reading of \<open>Date.now()\<close> in the handler
  plus 30 days, that is \<open>30 * 24 * 60 * 60 * 1000\<close> milliseconds. A prescription that
  either of the two functions reading the chain reports has \<open>issueDate\<close> equal to the
  chain's \<open>issueDate\<close> in milliseconds and \<open>validTill\<close> equal to it plus 30 days.

  The three functions do produce these results. A signed-in doctor whose body passes
  the schema and has no \<open>validTill\<close> gets status 200 and the row with the default, as
  long as the default is a valid date. \<open>fetchPrescriptionFromBlockchain\<close> returns the
  entry of the chain with the two dates above when the identifier parses to a safe
  non-negative integer, the calls on the contract return, the entry exists
  (\<open>id \<noteq> 0\<close>), the caller may read it and both dates are valid; and
  \<open>fetchAllPrescriptionsFromBlockchain\<close> lists, under the same conditions, every entry
  between 1 and \<open>prescriptionCounter\<close> that its filter keeps.
\<close>

theorem validity_is_thirty_days:
  "(POST_prescriptions rt db req = (res, db') \<and> res_status res = 200
      \<and> req_json req = Some (JObj kvs) \<and> map_of kvs ''validTill'' = None \<longrightarrow>
      (\<exists>prescription.
          db_prescriptions db' = db_prescriptions db @ [prescription]
        \<and> pr_validTill prescription = rt_now rt + 30 * 24 * 60 * 60 * 1000))
 \<and> (fetchPrescriptionFromBlockchain provider prescriptionId userAddress = Some v \<longrightarrow>
      (\<exists>contract k pd.
          provider = Returns contract \<and> c_prescriptions contract k = Returns pd
        \<and> pv_issueDate v = int (cp_issueDate pd) * 1000
        \<and> pv_validTill v = pv_issueDate v + 30 * 24 * 60 * 60 * 1000))
 \<and> (v' \<in> set (fetchAllPrescriptionsFromBlockchain provider userAddress' isDoctor) \<longrightarrow>
      (\<exists>contract k pd.
          provider = Returns contract \<and> c_prescriptions contract k = Returns pd
        \<and> pv_issueDate v' = int (cp_issueDate pd) * 1000
        \<and> pv_validTill v' = pv_issueDate v' + 30 * 24 * 60 * 60 * 1000))
 \<and> (req_user req = Some user \<and> find_doctor_by_user db (su_id user) = Some doctor
      \<and> req_json req = Some (JObj kvs) \<and> map_of kvs ''validTill'' = None
      \<and> prescriptionCreateSchema (rt_is_datetime rt) (JObj kvs) = Some body
      \<and> \<bar>rt_now rt + 30 * 24 * 60 * 60 * 1000\<bar> \<le> 8640000000000000 \<longrightarrow>
      res_status (fst (POST_prescriptions rt db req)) = 200
    \<and> db_prescriptions (snd (POST_prescriptions rt db req)) = db_prescriptions db @
        [\<lparr>pr_id = rt_new_prescription_id rt, pr_doctorId = doc_id doctor,
          pr_patientId = pb_patientId body, pr_issueDate = rt_db_now rt,
          pr_validTill = rt_now rt + 30 * 24 * 60 * 60 * 1000,
          pr_medications = map medication_of_input (pb_medications body)\<rparr>])
 \<and> (provider = Returns chain \<and> parseInt prescriptionId 0 = Some n
      \<and> 0 \<le> n \<and> n \<le> 2 ^ 53 - 1
      \<and> c_prescriptions chain (nat n) = Returns entry \<and> cp_id entry \<noteq> 0
      \<and> c_doctors chain (cp_doctorAddress entry) = Returns doctorInfo
      \<and> c_patients chain (cp_patientAddress entry) = Returns patientInfo
      \<and> may_read userAddress entry \<and> dates_valid entry \<longrightarrow>
      (\<exists>w. fetchPrescriptionFromBlockchain provider prescriptionId userAddress = Some w
        \<and> chain_view entry doctorInfo patientInfo = Some w
        \<and> pv_id w = digits10 (cp_id entry)
        \<and> pv_issueDate w = int (cp_issueDate entry) * 1000
        \<and> pv_validTill w = int (cp_issueDate entry) * 1000 + 30 * 24 * 60 * 60 * 1000))
 \<and> (provider = Returns chain \<and> c_prescriptionCounter chain = Returns counter
      \<and> 1 \<le> j \<and> j \<le> counter
      \<and> c_prescriptions chain j = Returns entry' \<and> cp_id entry' \<noteq> 0
      \<and> c_doctors chain (cp_doctorAddress entry') = Returns doctorInfo'
      \<and> c_patients chain (cp_patientAddress entry') = Returns patientInfo'
      \<and> is_listed userAddress' isDoctor entry' \<and> dates_valid entry' \<longrightarrow>
      (\<exists>w. w \<in> set (fetchAllPrescriptionsFromBlockchain provider userAddress' isDoctor)
        \<and> chain_view entry' doctorInfo' patientInfo' = Some w
        \<and> pv_id w = digits10 (cp_id entry')
        \<and> pv_issueDate w = int (cp_issueDate entry') * 1000
        \<and> pv_validTill w = int (cp_issueDate entry') * 1000 + 30 * 24 * 60 * 60 * 1000))"
proof (intro conjI impI)
  assume a: "POST_prescriptions rt db req = (res, db') \<and> res_status res = 200
      \<and> req_json req = Some (JObj kvs) \<and> map_of kvs ''validTill'' = None"
  then show "\<exists>prescription.
          db_prescriptions db' = db_prescriptions db @ [prescription]
        \<and> pr_validTill prescription = rt_now rt + 30 * 24 * 60 * 60 * 1000"
    using POST_prescriptions_default_validTill [of rt db req res db' kvs] by blast
next
  assume "fetchPrescriptionFromBlockchain provider prescriptionId userAddress = Some v"
  from fetchOne_views [OF this] show "\<exists>contract k pd.
          provider = Returns contract \<and> c_prescriptions contract k = Returns pd
        \<and> pv_issueDate v = int (cp_issueDate pd) * 1000
        \<and> pv_validTill v = pv_issueDate v + 30 * 24 * 60 * 60 * 1000"
    using chain_view_fields by blast
next
  assume "v' \<in> set (fetchAllPrescriptionsFromBlockchain provider userAddress' isDoctor)"
  from fetchAll_views [OF this] show "\<exists>contract k pd.
          provider = Returns contract \<and> c_prescriptions contract k = Returns pd
        \<and> pv_issueDate v' = int (cp_issueDate pd) * 1000
        \<and> pv_validTill v' = pv_issueDate v' + 30 * 24 * 60 * 60 * 1000"
    using chain_view_fields by blast
next
  assume a: "req_user req = Some user \<and> find_doctor_by_user db (su_id user) = Some doctor
      \<and> req_json req = Some (JObj kvs) \<and> map_of kvs ''validTill'' = None
      \<and> prescriptionCreateSchema (rt_is_datetime rt) (JObj kvs) = Some body
      \<and> \<bar>rt_now rt + 30 * 24 * 60 * 60 * 1000\<bar> \<le> 8640000000000000"
  note P = POST_prescriptions_stores_default [of req user db doctor kvs rt body]
  from a P show "res_status (fst (POST_prescriptions rt db req)) = 200" by blast
  from a P show "db_prescriptions (snd (POST_prescriptions rt db req)) = db_prescriptions db @
        [\<lparr>pr_id = rt_new_prescription_id rt, pr_doctorId = doc_id doctor,
          pr_patientId = pb_patientId body, pr_issueDate = rt_db_now rt,
          pr_validTill = rt_now rt + 30 * 24 * 60 * 60 * 1000,
          pr_medications = map medication_of_input (pb_medications body)\<rparr>]" by blast
next
  assume a: "provider = Returns chain \<and> parseInt prescriptionId 0 = Some n
      \<and> 0 \<le> n \<and> n \<le> 2 ^ 53 - 1
      \<and> c_prescriptions chain (nat n) = Returns entry \<and> cp_id entry \<noteq> 0
      \<and> c_doctors chain (cp_doctorAddress entry) = Returns doctorInfo
      \<and> c_patients chain (cp_patientAddress entry) = Returns patientInfo
      \<and> may_read userAddress entry \<and> dates_valid entry"
  then obtain w where w: "chain_view entry doctorInfo patientInfo = Some w"
    using chain_view_returns [of entry doctorInfo patientInfo] by blast
  have "fetchPrescriptionFromBlockchain provider prescriptionId userAddress
      = chain_view entry doctorInfo patientInfo"
    using a fetchOne_returns [of provider chain prescriptionId n entry doctorInfo patientInfo
        userAddress] by blast
  then have f: "fetchPrescriptionFromBlockchain provider prescriptionId userAddress = Some w"
    using w by simp
  from chain_view_fields [OF w] f w
  show "\<exists>w. fetchPrescriptionFromBlockchain provider prescriptionId userAddress = Some w
        \<and> chain_view entry doctorInfo patientInfo = Some w
        \<and> pv_id w = digits10 (cp_id entry)
        \<and> pv_issueDate w = int (cp_issueDate entry) * 1000
        \<and> pv_validTill w = int (cp_issueDate entry) * 1000 + 30 * 24 * 60 * 60 * 1000"
    by (intro exI [of _ w]) simp
next
  assume a: "provider = Returns chain \<and> c_prescriptionCounter chain = Returns counter
      \<and> 1 \<le> j \<and> j \<le> counter
      \<and> c_prescriptions chain j = Returns entry' \<and> cp_id entry' \<noteq> 0
      \<and> c_doctors chain (cp_doctorAddress entry') = Returns doctorInfo'
      \<and> c_patients chain (cp_patientAddress entry') = Returns patientInfo'
      \<and> is_listed userAddress' isDoctor entry' \<and> dates_valid entry'"
  then obtain w where w: "chain_view entry' doctorInfo' patientInfo' = Some w"
    using chain_view_returns [of entry' doctorInfo' patientInfo'] by blast
  have m: "w \<in> set (fetchAllPrescriptionsFromBlockchain provider userAddress' isDoctor)"
    using a w fetchAll_returns [of provider chain counter j entry' doctorInfo' patientInfo'
        userAddress' isDoctor w] by blast
  from chain_view_fields [OF w] m w
  show "\<exists>w. w \<in> set (fetchAllPrescriptionsFromBlockchain provider userAddress' isDoctor)
        \<and> chain_view entry' doctorInfo' patientInfo' = Some w
        \<and> pv_id w = digits10 (cp_id entry')
        \<and> pv_issueDate w = int (cp_issueDate entry') * 1000
        \<and> pv_validTill w = int (cp_issueDate entry') * 1000 + 30 * 24 * 60 * 60 * 1000"
    by (intro exI [of _ w]) simp
qed

lemma example_parseInt: "parseInt ''1'' 0 = Some 1"
  by code_simp

lemma example_digits10: "digits10 1 = ''1''"
  by code_simp

lemma example_chain_view:
  "chain_view \<lparr>cp_id = 1, cp_doctorAddress = ''0xBB'', cp_patientAddress = ''0xaa'',
                 cp_issueDate = 1700000000\<rparr>
     \<lparr>cd_name = ''Bob'', cd_speciality = ''ENT''\<rparr> \<lparr>cpt_name = []\<rparr> = Some example_view"
  by (simp add: chain_view_def TimeClip_def example_digits10 or_default_def truthy_def
      example_view_def del: One_nat_def)

lemma example_fetch_one:
  "fetchPrescriptionFromBlockchain (Returns example_contract) ''1'' None = Some example_view"
  by (simp add: fetchPrescriptionFromBlockchain_def example_parseInt example_contract_def
      example_chain_view del: One_nat_def)

lemma example_fetch_entry:
  "fetch_entry example_contract None False 1 = [example_view]"
  by (simp add: fetch_entry_def example_contract_def example_chain_view del: One_nat_def)

lemma example_fetch_all:
  "example_view \<in> set (fetchAllPrescriptionsFromBlockchain (Returns example_contract) None False)"
proof -
  have "fetch_loop example_contract None False 2 1 []
      = fetch_loop example_contract None False 2 2 [example_view]"
    by (subst fetch_loop.simps) (simp add: example_fetch_entry del: One_nat_def)
  also have "\<dots> = fetch_loop example_contract None False 2 3
      ([example_view] @ fetch_entry example_contract None False 2)"
    by (subst fetch_loop.simps) simp
  also have "\<dots> = [example_view] @ fetch_entry example_contract None False 2"
    by (subst fetch_loop.simps) simp
  finally show ?thesis
    by (simp add: fetchAllPrescriptionsFromBlockchain_def example_contract_def)
qed

lemma example_prescription_body:
  "req_json example_prescription_request =
     Some (JObj [(''patientId'', JStr ''p1''),
           (''medications'',
              JArr [JObj [(''name'', JStr ''Amoxicillin''), (''dosage'', JStr ''500mg''),
                          (''duration'', JStr ''7 days'')]])])
   \<and> map_of [(''patientId'', JStr ''p1''),
           (''medications'',
              JArr [JObj [(''name'', JStr ''Amoxicillin''), (''dosage'', JStr ''500mg''),
                          (''duration'', JStr ''7 days'')]])] ''validTill'' = None"
  by (simp add: example_prescription_request_def example_prescription_json_def)

lemma example_prescription_schema:
  "prescriptionCreateSchema (rt_is_datetime example_runtime)
     (JObj [(''patientId'', JStr ''p1''),
           (''medications'',
              JArr [JObj [(''name'', JStr ''Amoxicillin''), (''dosage'', JStr ''500mg''),
                          (''duration'', JStr ''7 days'')]])])
     = Some \<lparr>pb_patientId = ''p1'',
          pb_medications = [\<lparr>mi_name = ''Amoxicillin'', mi_dosage = ''500mg'',
            mi_duration = ''7 days'', mi_additionalInstructions = None\<rparr>],
          pb_validTill = None, pb_blockchainTxHash = None\<rparr>"
  by code_simp

lemma example_prescription_doctor:
  "req_user example_prescription_request = Some \<lparr>su_id = ''u2''\<rparr>
   \<and> find_doctor_by_user example_db (su_id \<lparr>su_id = ''u2''\<rparr>) =
      Some \<lparr>doc_id = ''d1'', doc_userId = ''u2'', doc_blockId = ''0xbb'', doc_verified = True,
          doc_specialization = ''ENT'', doc_licenseNumber = ''L1''\<rparr>"
  by (simp add: example_prescription_request_def find_doctor_by_user_def example_db_def)

lemma example_default_valid:
  "\<bar>rt_now example_runtime + 30 * 24 * 60 * 60 * 1000\<bar> \<le> (8640000000000000 :: int)"
  by (simp add: example_runtime_def)

lemma example_chain_entry:
  "Returns example_contract = Returns example_contract
   \<and> parseInt ''1'' 0 = Some 1 \<and> (0 :: int) \<le> 1 \<and> (1 :: int) \<le> 2 ^ 53 - 1
   \<and> c_prescriptions example_contract (nat 1) =
       Returns \<lparr>cp_id = 1, cp_doctorAddress = ''0xBB'', cp_patientAddress = ''0xaa'',
                 cp_issueDate = 1700000000\<rparr>
   \<and> cp_id \<lparr>cp_id = 1, cp_doctorAddress = ''0xBB'', cp_patientAddress = ''0xaa'',
                 cp_issueDate = 1700000000\<rparr> \<noteq> 0
   \<and> c_doctors example_contract
        (cp_doctorAddress \<lparr>cp_id = 1, cp_doctorAddress = ''0xBB'', cp_patientAddress = ''0xaa'',
                 cp_issueDate = 1700000000\<rparr>) = Returns \<lparr>cd_name = ''Bob'', cd_speciality = ''ENT''\<rparr>
   \<and> c_patients example_contract
        (cp_patientAddress \<lparr>cp_id = 1, cp_doctorAddress = ''0xBB'', cp_patientAddress = ''0xaa'',
                 cp_issueDate = 1700000000\<rparr>) = Returns \<lparr>cpt_name = []\<rparr>
   \<and> may_read None \<lparr>cp_id = 1, cp_doctorAddress = ''0xBB'', cp_patientAddress = ''0xaa'',
                 cp_issueDate = 1700000000\<rparr>
   \<and> dates_valid \<lparr>cp_id = 1, cp_doctorAddress = ''0xBB'', cp_patientAddress = ''0xaa'',
                 cp_issueDate = 1700000000\<rparr>"
  by (simp add: example_parseInt example_contract_def may_read_def dates_valid_def
      del: One_nat_def)

lemma example_chain_listed:
  "Returns example_contract = Returns example_contract
   \<and> c_prescriptionCounter example_contract = Returns 2 \<and> (1 :: nat) \<le> 1 \<and> (1 :: nat) \<le> 2
   \<and> c_prescriptions example_contract 1 =
       Returns \<lparr>cp_id = 1, cp_doctorAddress = ''0xBB'', cp_patientAddress = ''0xaa'',
                 cp_issueDate = 1700000000\<rparr>
   \<and> cp_id \<lparr>cp_id = 1, cp_doctorAddress = ''0xBB'', cp_patientAddress = ''0xaa'',
                 cp_issueDate = 1700000000\<rparr> \<noteq> 0
   \<and> c_doctors example_contract
        (cp_doctorAddress \<lparr>cp_id = 1, cp_doctorAddress = ''0xBB'', cp_patientAddress = ''0xaa'',
                 cp_issueDate = 1700000000\<rparr>) = Returns \<lparr>cd_name = ''Bob'', cd_speciality = ''ENT''\<rparr>
   \<and> c_patients example_contract
        (cp_patientAddress \<lparr>cp_id = 1, cp_doctorAddress = ''0xBB'', cp_patientAddress = ''0xaa'',
                 cp_issueDate = 1700000000\<rparr>) = Returns \<lparr>cpt_name = []\<rparr>
   \<and> is_listed None False \<lparr>cp_id = 1, cp_doctorAddress = ''0xBB'', cp_patientAddress = ''0xaa'',
                 cp_issueDate = 1700000000\<rparr>
   \<and> dates_valid \<lparr>cp_id = 1, cp_doctorAddress = ''0xBB'', cp_patientAddress = ''0xaa'',
                 cp_issueDate = 1700000000\<rparr>"
  by (simp add: example_contract_def is_listed_def dates_valid_def del: One_nat_def)

theorem validity_is_thirty_days_witness:
  "(\<exists>prescription.
       db_prescriptions
         (snd (POST_prescriptions example_runtime example_db example_prescription_request))
         = db_prescriptions example_db @ [prescription]
     \<and> pr_validTill prescription = rt_now example_runtime + 30 * 24 * 60 * 60 * 1000)
 \<and> (\<exists>contract k pd.
          Returns example_contract = Returns contract \<and> c_prescriptions contract k = Returns pd
        \<and> pv_issueDate example_view = int (cp_issueDate pd) * 1000
        \<and> pv_validTill example_view = pv_issueDate example_view + 30 * 24 * 60 * 60 * 1000)
 \<and> (example_view \<in> set (fetchAllPrescriptionsFromBlockchain (Returns example_contract) None False)
        \<and> (\<exists>contract k pd.
          Returns example_contract = Returns contract \<and> c_prescriptions contract k = Returns pd
        \<and> pv_issueDate example_view = int (cp_issueDate pd) * 1000
        \<and> pv_validTill example_view = pv_issueDate example_view + 30 * 24 * 60 * 60 * 1000))
 \<and> res_status (fst (POST_prescriptions example_runtime example_db example_prescription_request))
      = 200
 \<and> db_prescriptions
      (snd (POST_prescriptions example_runtime example_db example_prescription_request))
      = db_prescriptions example_db @
          [\<lparr>pr_id = ''rx-new'', pr_doctorId = ''d1'', pr_patientId = ''p1'',
            pr_issueDate = 1700000000005, pr_validTill = 1700000000000 + 30 * 24 * 60 * 60 * 1000,
            pr_medications = map medication_of_input
              [\<lparr>mi_name = ''Amoxicillin'', mi_dosage = ''500mg'', mi_duration = ''7 days'',
                mi_additionalInstructions = None\<rparr>]\<rparr>]
 \<and> (\<exists>w. fetchPrescriptionFromBlockchain (Returns example_contract) ''1'' None = Some w
        \<and> w = example_view
        \<and> pv_id w = ''1''
        \<and> pv_issueDate w = 1700000000 * 1000
        \<and> pv_validTill w = 1700000000 * 1000 + 30 * 24 * 60 * 60 * 1000)
 \<and> (\<exists>w. w \<in> set (fetchAllPrescriptionsFromBlockchain (Returns example_contract) None False)
        \<and> w = example_view
        \<and> pv_id w = ''1''
        \<and> pv_issueDate w = 1700000000 * 1000
        \<and> pv_validTill w = 1700000000 * 1000 + 30 * 24 * 60 * 60 * 1000)"
proof -
  let ?kvs = "[(''patientId'', JStr ''p1''),
           (''medications'',
              JArr [JObj [(''name'', JStr ''Amoxicillin''), (''dosage'', JStr ''500mg''),
                          (''duration'', JStr ''7 days'')]])]"
  let ?entry = "\<lparr>cp_id = 1, cp_doctorAddress = ''0xBB'', cp_patientAddress = ''0xaa'',
                 cp_issueDate = 1700000000\<rparr>"
  note T = validity_is_thirty_days
    [where rt = example_runtime and db = example_db and req = example_prescription_request
      and res = "fst (POST_prescriptions example_runtime example_db example_prescription_request)"
      and db' = "snd (POST_prescriptions example_runtime example_db example_prescription_request)"
      and kvs = ?kvs and provider = "Returns example_contract" and prescriptionId = "''1''"
      and userAddress = None and v = example_view and v' = example_view
      and userAddress' = None and isDoctor = False
      and user = "\<lparr>su_id = ''u2''\<rparr>"
      and doctor = "\<lparr>doc_id = ''d1'', doc_userId = ''u2'', doc_blockId = ''0xbb'',
          doc_verified = True, doc_specialization = ''ENT'', doc_licenseNumber = ''L1''\<rparr>"
      and body = "\<lparr>pb_patientId = ''p1'',
          pb_medications = [\<lparr>mi_name = ''Amoxicillin'', mi_dosage = ''500mg'',
            mi_duration = ''7 days'', mi_additionalInstructions = None\<rparr>],
          pb_validTill = None, pb_blockchainTxHash = None\<rparr>"
      and chain = example_contract and n = 1 and entry = ?entry
      and doctorInfo = "\<lparr>cd_name = ''Bob'', cd_speciality = ''ENT''\<rparr>"
      and patientInfo = "\<lparr>cpt_name = []\<rparr>"
      and counter = 2 and j = 1 and entry' = ?entry
      and doctorInfo' = "\<lparr>cd_name = ''Bob'', cd_speciality = ''ENT''\<rparr>"
      and patientInfo' = "\<lparr>cpt_name = []\<rparr>"]
  have a: "POST_prescriptions example_runtime example_db example_prescription_request
      = (fst (POST_prescriptions example_runtime example_db example_prescription_request),
         snd (POST_prescriptions example_runtime example_db example_prescription_request))"
    by simp
  note c1 = T [THEN conjunct1, THEN mp,
      OF conjI [OF a conjI [OF example_prescription_status example_prescription_body]]]
  note c2 = T [THEN conjunct2, THEN conjunct1, THEN mp, OF example_fetch_one]
  note c3 = T [THEN conjunct2, THEN conjunct2, THEN conjunct1, THEN mp, OF example_fetch_all]
  have h4: "req_user example_prescription_request = Some \<lparr>su_id = ''u2''\<rparr>
      \<and> find_doctor_by_user example_db (su_id \<lparr>su_id = ''u2''\<rparr>) =
          Some \<lparr>doc_id = ''d1'', doc_userId = ''u2'', doc_blockId = ''0xbb'',
            doc_verified = True, doc_specialization = ''ENT'', doc_licenseNumber = ''L1''\<rparr>
      \<and> req_json example_prescription_request = Some (JObj ?kvs)
      \<and> map_of ?kvs ''validTill'' = None
      \<and> prescriptionCreateSchema (rt_is_datetime example_runtime) (JObj ?kvs) =
          Some \<lparr>pb_patientId = ''p1'',
            pb_medications = [\<lparr>mi_name = ''Amoxicillin'', mi_dosage = ''500mg'',
              mi_duration = ''7 days'', mi_additionalInstructions = None\<rparr>],
            pb_validTill = None, pb_blockchainTxHash = None\<rparr>
      \<and> \<bar>rt_now example_runtime + 30 * 24 * 60 * 60 * 1000\<bar> \<le> 8640000000000000"
    using example_prescription_doctor example_prescription_body example_prescription_schema
      example_default_valid
    by (intro conjI) (simp_all only:)
  note c4 = T [THEN conjunct2, THEN conjunct2, THEN conjunct2, THEN conjunct1, THEN mp, OF h4]
  have c4a: "res_status
      (fst (POST_prescriptions example_runtime example_db example_prescription_request)) = 200"
    using c4 by (rule conjunct1)
  have c4b: "db_prescriptions
      (snd (POST_prescriptions example_runtime example_db example_prescription_request))
      = db_prescriptions example_db @
          [\<lparr>pr_id = ''rx-new'', pr_doctorId = ''d1'', pr_patientId = ''p1'',
            pr_issueDate = 1700000000005, pr_validTill = 1700000000000 + 30 * 24 * 60 * 60 * 1000,
            pr_medications = map medication_of_input
              [\<lparr>mi_name = ''Amoxicillin'', mi_dosage = ''500mg'', mi_duration = ''7 days'',
                mi_additionalInstructions = None\<rparr>]\<rparr>]"
    using c4 [THEN conjunct2] by (simp add: example_runtime_def)
  note c5 = T [THEN conjunct2, THEN conjunct2, THEN conjunct2, THEN conjunct2, THEN conjunct1,
      THEN mp, OF example_chain_entry]
  have c5': "\<exists>w. fetchPrescriptionFromBlockchain (Returns example_contract) ''1'' None = Some w
        \<and> w = example_view
        \<and> pv_id w = ''1''
        \<and> pv_issueDate w = 1700000000 * 1000
        \<and> pv_validTill w = 1700000000 * 1000 + 30 * 24 * 60 * 60 * 1000"
    using c5 by (auto simp: example_chain_view example_digits10 simp del: One_nat_def)
  note c6 = T [THEN conjunct2, THEN conjunct2, THEN conjunct2, THEN conjunct2, THEN conjunct2,
      THEN mp, OF example_chain_listed]
  have c6': "\<exists>w. w \<in> set (fetchAllPrescriptionsFromBlockchain (Returns example_contract) None False)
        \<and> w = example_view
        \<and> pv_id w = ''1''
        \<and> pv_issueDate w = 1700000000 * 1000
        \<and> pv_validTill w = 1700000000 * 1000 + 30 * 24 * 60 * 60 * 1000"
    using c6 by (auto simp: example_chain_view example_digits10 simp del: One_nat_def)
  from c1 c2 example_fetch_all c3 c4a c4b c5' c6' show ?thesis by (intro conjI)
qed

section \<open>Properties of \<open>GET /api/prescriptions\<close>\<close>

lemma Map_set_keys:
  "map fst (Map_set m k v) = (if k \<in> set (map fst m) then map fst m else map fst m @ [k])"
  by (induction m k v rule: Map_set.induct) (auto simp: rev_image_eqI)

lemma Map_set_entries: "set (Map_set m k v) \<subseteq> insert (k, v) (set m)"
  by (induction m k v rule: Map_set.induct) auto

lemma Map_set_new: "k \<notin> set (map fst m) \<Longrightarrow> Map_set m k v = m @ [(k, v)]"
  by (induction m k v rule: Map_set.induct) auto

lemma Map_has_keys: "Map_has m k \<longleftrightarrow> k \<in> set (map fst m)"
  by (simp add: Map_has_def map_of_eq_None_iff)

lemma fill_db:
  assumes "map_ok dbs bcs m" and "set ps \<subseteq> set dbs"
  shows "map_ok dbs bcs (foldl (\<lambda>combined p. Map_set combined (pv_id p) p) m ps)
       \<and> set (map fst (foldl (\<lambda>combined p. Map_set combined (pv_id p) p) m ps))
           = set (map fst m) \<union> pv_id ` set ps"
  using assms
proof (induction ps arbitrary: m)
  case Nil
  then show ?case by simp
next
  case (Cons p ps)
  let ?m = "Map_set m (pv_id p) p"
  have d: "distinct (map fst ?m)"
    using Cons.prems(1) by (simp add: Map_set_keys map_ok_def)
  have e: "\<forall>x \<in> set ?m. fst x = pv_id (snd x)
          \<and> (snd x \<in> set dbs \<or> (snd x \<in> set bcs \<and> pv_id (snd x) \<notin> pv_id ` set dbs))"
  proof
    fix x assume "x \<in> set ?m"
    then have "x = (pv_id p, p) \<or> x \<in> set m"
      using Map_set_entries [of m "pv_id p" p] by auto
    then show "fst x = pv_id (snd x)
          \<and> (snd x \<in> set dbs \<or> (snd x \<in> set bcs \<and> pv_id (snd x) \<notin> pv_id ` set dbs))"
    proof
      assume "x = (pv_id p, p)"
      then show ?thesis using Cons.prems(2) by simp
    next
      assume "x \<in> set m"
      then show ?thesis using Cons.prems(1) by (simp add: map_ok_def)
    qed
  qed
  have ok: "map_ok dbs bcs ?m" using d e by (simp add: map_ok_def)
  have "set ps \<subseteq> set dbs" using Cons.prems(2) by simp
  from Cons.IH [OF ok this] show ?case
    by (auto simp: Map_set_keys)
qed

lemma fill_chain:
  assumes "map_ok dbs bcs m" and "set ps \<subseteq> set bcs"
    and "pv_id ` set dbs \<subseteq> set (map fst m)"
  shows "map_ok dbs bcs
           (foldl (\<lambda>combined p. if \<not> Map_has combined (pv_id p)
                                  then Map_set combined (pv_id p) p else combined) m ps)
       \<and> set m \<subseteq> set (foldl (\<lambda>combined p. if \<not> Map_has combined (pv_id p)
                                  then Map_set combined (pv_id p) p else combined) m ps)
       \<and> set (map fst (foldl (\<lambda>combined p. if \<not> Map_has combined (pv_id p)
                                  then Map_set combined (pv_id p) p else combined) m ps))
           = set (map fst m) \<union> pv_id ` set ps"
  using assms
proof (induction ps arbitrary: m)
  case Nil
  then show ?case by simp
next
  case (Cons p ps)
  let ?m = "if \<not> Map_has m (pv_id p) then Map_set m (pv_id p) p else m"
  have sub: "set m \<subseteq> set ?m" by (auto simp: Map_has_keys Map_set_new)
  have keys: "pv_id ` set dbs \<subseteq> set (map fst ?m)"
    using Cons.prems(3) sub by (auto simp: Map_has_keys Map_set_new)
  have grow: "set (map fst ?m) = insert (pv_id p) (set (map fst m))"
    by (auto simp: Map_has_keys Map_set_new)
  have ok: "map_ok dbs bcs ?m"
  proof (cases "Map_has m (pv_id p)")
    case True
    then show ?thesis using Cons.prems(1) by simp
  next
    case False
    then have new: "pv_id p \<notin> set (map fst m)" by (simp add: Map_has_keys)
    then have "pv_id p \<notin> pv_id ` set dbs" using Cons.prems(3) by auto
    moreover have "p \<in> set bcs" using Cons.prems(2) by simp
    ultimately show ?thesis
      using Cons.prems(1) False new by (auto simp: map_ok_def Map_set_new)
  qed
  have "set ps \<subseteq> set bcs" using Cons.prems(2) by simp
  from Cons.IH [OF ok this keys] sub grow show ?case by auto
qed

lemma keyed_values:
  "\<forall>x \<in> set m. fst x = pv_id (snd x) \<Longrightarrow> map pv_id (map snd m) = map fst m"
  by (induction m) auto

lemma combine_properties:
  "distinct (map pv_id (combine dbs bcs))
 \<and> (\<forall>v \<in> set (combine dbs bcs).
       v \<in> set dbs \<or> (v \<in> set bcs \<and> pv_id v \<notin> pv_id ` set dbs))
 \<and> (\<forall>d \<in> set dbs. \<exists>v \<in> set (combine dbs bcs). pv_id v = pv_id d \<and> v \<in> set dbs)
 \<and> pv_id ` set (combine dbs bcs) = pv_id ` set dbs \<union> pv_id ` set bcs"
proof -
  define m0 where "m0 = foldl (\<lambda>combined p. Map_set combined (pv_id p) p) [] dbs"
  define m1 where "m1 = foldl (\<lambda>combined p. if \<not> Map_has combined (pv_id p)
                                  then Map_set combined (pv_id p) p else combined) m0 bcs"
  have c: "combine dbs bcs = map snd m1"
    by (simp add: combine_def Map_values_def Let_def m0_def m1_def)
  have "map_ok dbs bcs []" by (simp add: map_ok_def)
  from fill_db [OF this, of dbs]
  have ok0: "map_ok dbs bcs m0" and keys0: "set (map fst m0) = pv_id ` set dbs"
    by (simp_all add: m0_def)
  from fill_chain [OF ok0, of bcs] keys0
  have ok1: "map_ok dbs bcs m1" and sub: "set m0 \<subseteq> set m1"
    and keys1: "set (map fst m1) = set (map fst m0) \<union> pv_id ` set bcs"
    by (simp_all add: m1_def)
  have inv1: "\<forall>x \<in> set m1. fst x = pv_id (snd x)
          \<and> (snd x \<in> set dbs \<or> (snd x \<in> set bcs \<and> pv_id (snd x) \<notin> pv_id ` set dbs))"
    and d1: "distinct (map fst m1)"
    using ok1 by (simp_all add: map_ok_def)
  have inv0: "\<forall>x \<in> set m0. fst x = pv_id (snd x) \<and> snd x \<in> set dbs"
  proof
    fix x assume x: "x \<in> set m0"
    then have "fst x \<in> pv_id ` set dbs" using keys0 by force
    moreover have "fst x = pv_id (snd x)
          \<and> (snd x \<in> set dbs \<or> (snd x \<in> set bcs \<and> pv_id (snd x) \<notin> pv_id ` set dbs))"
      using ok0 x by (simp add: map_ok_def)
    ultimately show "fst x = pv_id (snd x) \<and> snd x \<in> set dbs" by auto
  qed
  have ids: "map pv_id (map snd m1) = map fst m1"
    using inv1 by (intro keyed_values) simp
  have 1: "distinct (map pv_id (combine dbs bcs))"
    unfolding c ids by (rule d1)
  have 2: "\<forall>v \<in> set (combine dbs bcs).
       v \<in> set dbs \<or> (v \<in> set bcs \<and> pv_id v \<notin> pv_id ` set dbs)"
  proof
    fix v assume "v \<in> set (combine dbs bcs)"
    then obtain x where "x \<in> set m1" and "v = snd x" using c by auto
    then show "v \<in> set dbs \<or> (v \<in> set bcs \<and> pv_id v \<notin> pv_id ` set dbs)"
      using inv1 by blast
  qed
  have 3: "\<forall>d \<in> set dbs. \<exists>v \<in> set (combine dbs bcs). pv_id v = pv_id d \<and> v \<in> set dbs"
  proof
    fix d assume "d \<in> set dbs"
    then have "pv_id d \<in> set (map fst m0)" using keys0 by simp
    then obtain x where x: "x \<in> set m0" and k: "fst x = pv_id d" by auto
    then have "pv_id (snd x) = pv_id d \<and> snd x \<in> set dbs" using inv0 by auto
    moreover have "snd x \<in> set (combine dbs bcs)" using x sub c by auto
    ultimately show "\<exists>v \<in> set (combine dbs bcs). pv_id v = pv_id d \<and> v \<in> set dbs"
      by blast
  qed
  have "set (map pv_id (combine dbs bcs)) = set (map fst m1)"
    unfolding c ids ..
  then have 4: "pv_id ` set (combine dbs bcs) = pv_id ` set dbs \<union> pv_id ` set bcs"
    using keys1 keys0 by simp
  from 1 2 3 4 show ?thesis by blast
qed

lemma sort_latest_first_set: "set (sort_latest_first ps) = set ps"
  by (simp add: sort_latest_first_def)

lemma sort_latest_first_distinct:
  "distinct (map pv_id (sort_latest_first ps)) = distinct (map pv_id ps)"
  by (simp add: distinct_map sort_latest_first_def)

lemma sort_latest_first_sorted:
  "sorted_wrt (\<lambda>a b. pv_issueDate a \<ge> pv_issueDate b) (sort_latest_first ps)"
proof -
  have "sorted (map (\<lambda>p. - pv_issueDate p) (sort_latest_first ps))"
    by (simp add: sort_latest_first_def)
  then have "sorted_wrt (\<lambda>a b. - pv_issueDate a \<le> - pv_issueDate b) (sort_latest_first ps)"
    by (simp only: sorted_map)
  then show ?thesis by simp
qed

lemma fetchAll_flag:
  assumes "v \<in> set (fetchAllPrescriptionsFromBlockchain provider userAddress isDoctor)"
  shows "pv_blockchainOnly v"
  using fetchAll_views [OF assms] chain_view_fields by blast

lemma db_view_fields: "pv_id (db_view db p) = pr_id p \<and> \<not> pv_blockchainOnly (db_view db p)"
  by (simp add: db_view_def Let_def)

lemma GET_prescriptions_list:
  assumes "res_body (GET_prescriptions provider db req) = PrescriptionList out"
  shows "out = sort_latest_first
                 (combine (sort_latest_first (map (db_view db) (selected_prescriptions db req)))
                    (fetched_prescriptions provider db req))"
proof -
  obtain user where u: "req_user req = Some user"
    using assms by (cases "req_user req") (simp_all add: GET_prescriptions_def)
  show ?thesis
  proof (cases "requested_role req = ''doctor''")
    case True
    then obtain doctor where d: "find_doctor_by_user db (su_id user) = Some doctor"
      using assms u
      by (cases "find_doctor_by_user db (su_id user)") (simp_all add: GET_prescriptions_def)
    show ?thesis
      using assms u True d
      by (simp add: GET_prescriptions_def selected_prescriptions_def fetched_prescriptions_def
          findMany_by_doctor_def Let_def)
  next
    case False
    show ?thesis
      using assms u False
      by (cases "find_patient_by_user db (su_id user)")
         (simp_all add: GET_prescriptions_def selected_prescriptions_def
            fetched_prescriptions_def findMany_by_patient_def Let_def sort_latest_first_def)
  qed
qed

lemma GET_prescriptions_returns:
  assumes "req_user req = Some user"
    and "requested_role req = ''doctor'' \<longrightarrow> find_doctor_by_user db (su_id user) \<noteq> None"
  shows "\<exists>out. GET_prescriptions provider db req
           = \<lparr>res_status = 200, res_body = PrescriptionList out\<rparr>"
  using assms by (auto simp: GET_prescriptions_def Let_def)

lemma fetched_flag:
  assumes "v \<in> set (fetched_prescriptions provider db req)"
  shows "pv_blockchainOnly v"
  using assms fetchAll_flag
  by (auto simp: fetched_prescriptions_def split: option.splits if_splits)

text \<open>
  C9. For a session user (with a doctor profile when the role is \<open>doctor\<close>)
  \<open>GET /api/prescriptions\<close> answers 200 with a list. The list is the merge of the rows
  that the database query selects and of the records fetched from the chain: its ids
  are exactly the ids of the two, each id occurs once, every selected row is represented by
  a database record with its id, every fetched record has an entry with its id, and an
  entry is a record from the chain only when no selected row has its id. The list is
  sorted by \<open>issueDate\<close>, latest first.
\<close>

theorem prescription_list_merged:
  "(req_user req = Some user
      \<and> (requested_role req = ''doctor'' \<longrightarrow> find_doctor_by_user db (su_id user) \<noteq> None) \<longrightarrow>
      (\<exists>out'. GET_prescriptions provider db req
           = \<lparr>res_status = 200, res_body = PrescriptionList out'\<rparr>))
 \<and> (res_body (GET_prescriptions provider db req) = PrescriptionList out \<longrightarrow>
       distinct (map pv_id out)
     \<and> sorted_wrt (\<lambda>a b. pv_issueDate a \<ge> pv_issueDate b) out
     \<and> (\<forall>p \<in> set (selected_prescriptions db req).
            \<exists>v \<in> set out. pv_id v = pr_id p \<and> \<not> pv_blockchainOnly v
              \<and> (\<exists>p' \<in> set (selected_prescriptions db req). v = db_view db p'))
     \<and> (\<forall>v \<in> set out. pv_blockchainOnly v \<longrightarrow>
            (\<forall>p \<in> set (selected_prescriptions db req). pr_id p \<noteq> pv_id v))
     \<and> pv_id ` set out
           = pr_id ` set (selected_prescriptions db req)
             \<union> pv_id ` set (fetched_prescriptions provider db req)
     \<and> (\<forall>c \<in> set (fetched_prescriptions provider db req).
            \<exists>v \<in> set out. pv_id v = pv_id c)
     \<and> (\<forall>v \<in> set out.
            v \<in> db_view db ` set (selected_prescriptions db req)
          \<or> (v \<in> set (fetched_prescriptions provider db req)
              \<and> pv_id v \<notin> pr_id ` set (selected_prescriptions db req))))"
proof (intro conjI impI)
  assume "req_user req = Some user
      \<and> (requested_role req = ''doctor'' \<longrightarrow> find_doctor_by_user db (su_id user) \<noteq> None)"
  then show "\<exists>out'. GET_prescriptions provider db req
           = \<lparr>res_status = 200, res_body = PrescriptionList out'\<rparr>"
    using GET_prescriptions_returns [of req user db provider] by blast
next
  assume body: "res_body (GET_prescriptions provider db req) = PrescriptionList out"
  define dbs where
    "dbs = sort_latest_first (map (db_view db) (selected_prescriptions db req))"
  define bcs where "bcs = fetched_prescriptions provider db req"
  have out: "out = sort_latest_first (combine dbs bcs)"
    using GET_prescriptions_list [OF body] by (simp add: dbs_def bcs_def)
  have flags: "\<forall>c \<in> set bcs. pv_blockchainOnly c"
    using fetched_flag by (auto simp: bcs_def)
  have set_dbs: "set dbs = db_view db ` set (selected_prescriptions db req)"
    by (simp add: dbs_def sort_latest_first_set)
  have ids_dbs: "pv_id ` set dbs = pr_id ` set (selected_prescriptions db req)"
    using db_view_fields by (auto simp: set_dbs image_iff)
  have set_out: "set out = set (combine dbs bcs)"
    by (simp add: out sort_latest_first_set)
  note cp = combine_properties [of dbs bcs]
  show "distinct (map pv_id out)"
    using cp by (simp add: out sort_latest_first_distinct)
  show "sorted_wrt (\<lambda>a b. pv_issueDate a \<ge> pv_issueDate b) out"
    unfolding out by (rule sort_latest_first_sorted)
  show "\<forall>p \<in> set (selected_prescriptions db req).
            \<exists>v \<in> set out. pv_id v = pr_id p \<and> \<not> pv_blockchainOnly v
              \<and> (\<exists>p' \<in> set (selected_prescriptions db req). v = db_view db p')"
  proof
    fix p assume "p \<in> set (selected_prescriptions db req)"
    then have "db_view db p \<in> set dbs" using set_dbs by simp
    then obtain v where v: "v \<in> set (combine dbs bcs)" "pv_id v = pv_id (db_view db p)"
        "v \<in> set dbs"
      using cp by blast
    then obtain p' where p': "p' \<in> set (selected_prescriptions db req)" "v = db_view db p'"
      using set_dbs by auto
    show "\<exists>v \<in> set out. pv_id v = pr_id p \<and> \<not> pv_blockchainOnly v
              \<and> (\<exists>p' \<in> set (selected_prescriptions db req). v = db_view db p')"
      using v p' set_out db_view_fields by (intro bexI [of _ v]) auto
  qed
  show "\<forall>v \<in> set out. pv_blockchainOnly v \<longrightarrow>
            (\<forall>p \<in> set (selected_prescriptions db req). pr_id p \<noteq> pv_id v)"
  proof (intro ballI impI)
    fix v p assume v: "v \<in> set out" and f: "pv_blockchainOnly v"
      and p: "p \<in> set (selected_prescriptions db req)"
    have "v \<notin> set dbs" using f set_dbs db_view_fields by auto
    then have "pv_id v \<notin> pv_id ` set dbs" using cp v set_out by blast
    moreover have "pr_id p \<in> pv_id ` set dbs" using p ids_dbs by blast
    ultimately show "pr_id p \<noteq> pv_id v" by auto
  qed
  have ids: "pv_id ` set out = pv_id ` set dbs \<union> pv_id ` set bcs"
    using cp set_out by simp
  then show "pv_id ` set out
           = pr_id ` set (selected_prescriptions db req)
             \<union> pv_id ` set (fetched_prescriptions provider db req)"
    using ids_dbs by (simp add: bcs_def)
  show "\<forall>c \<in> set (fetched_prescriptions provider db req).
            \<exists>v \<in> set out. pv_id v = pv_id c"
  proof
    fix c assume "c \<in> set (fetched_prescriptions provider db req)"
    then have "pv_id c \<in> pv_id ` set out" using ids by (simp add: bcs_def)
    then show "\<exists>v \<in> set out. pv_id v = pv_id c" by auto
  qed
  show "\<forall>v \<in> set out.
            v \<in> db_view db ` set (selected_prescriptions db req)
          \<or> (v \<in> set (fetched_prescriptions provider db req)
              \<and> pv_id v \<notin> pr_id ` set (selected_prescriptions db req))"
  proof
    fix v assume "v \<in> set out"
    then have "v \<in> set dbs \<or> (v \<in> set bcs \<and> pv_id v \<notin> pv_id ` set dbs)"
      using cp set_out by blast
    then show "v \<in> db_view db ` set (selected_prescriptions db req)
          \<or> (v \<in> set (fetched_prescriptions provider db req)
              \<and> pv_id v \<notin> pr_id ` set (selected_prescriptions db req))"
      using set_dbs ids_dbs by (simp add: bcs_def)
  qed
qed

lemma example_lower: "toLowerCase ''0xBB'' = ''0xbb'' \<and> toLowerCase ''0xbb'' = ''0xbb''"
  by code_simp

lemma example_digits10_7: "digits10 7 = ''7''"
  by code_simp

lemma example_entry_1: "fetch_entry example_contract (Some ''0xbb'') True 1 = [example_view]"
  by (simp add: fetch_entry_def example_contract_def example_chain_view example_lower truthy_def
      del: One_nat_def)

lemma example_entry_2:
  "fetch_entry example_contract (Some ''0xbb'') True 2 =
     [\<lparr>pv_id = ''7'', pv_issueDate = 1620000000000, pv_validTill = 1622592000000,
       pv_doctorId = None, pv_patientId = None, pv_patientName = Some ''Unknown Patient'',
       pv_doctorName = Some ''Bob'', pv_specialization = ''ENT'', pv_licenseNumber = [],
       pv_medications = [], pv_blockchainOnly = True\<rparr>]"
  by (simp add: fetch_entry_def example_contract_def chain_view_def TimeClip_def
      example_digits10_7 or_default_def example_lower truthy_def)

lemma example_counter: "c_prescriptionCounter example_contract = Returns 2"
  by (simp add: example_contract_def)

lemma example_chain_listing:
  "fetchAllPrescriptionsFromBlockchain (Returns example_contract) (Some ''0xbb'') True =
     [example_view,
      \<lparr>pv_id = ''7'', pv_issueDate = 1620000000000, pv_validTill = 1622592000000,
       pv_doctorId = None, pv_patientId = None, pv_patientName = Some ''Unknown Patient'',
       pv_doctorName = Some ''Bob'', pv_specialization = ''ENT'', pv_licenseNumber = [],
       pv_medications = [], pv_blockchainOnly = True\<rparr>]"
proof -
  have "fetch_loop example_contract (Some ''0xbb'') True 2 1 []
      = fetch_loop example_contract (Some ''0xbb'') True 2 2 [example_view]"
    by (subst fetch_loop.simps) (simp add: example_entry_1 del: One_nat_def)
  also have "\<dots> = fetch_loop example_contract (Some ''0xbb'') True 2 3
      ([example_view] @ fetch_entry example_contract (Some ''0xbb'') True 2)"
    by (subst fetch_loop.simps) simp
  also have "\<dots> = [example_view] @ fetch_entry example_contract (Some ''0xbb'') True 2"
    by (subst fetch_loop.simps) simp
  finally show ?thesis
    by (simp add: fetchAllPrescriptionsFromBlockchain_def example_counter example_entry_2
        del: One_nat_def)
qed

lemma example_db_listing:
  "findMany_by_doctor example_db ''d1'' = tl example_listing"
  by (simp add: findMany_by_doctor_def example_db_def sort_latest_first_def db_view_def
      user_name_of_def example_listing_def)

lemma example_GET:
  "res_body (GET_prescriptions (Returns example_contract) example_db example_prescription_request)
     = PrescriptionList example_listing"
proof -
  have d: "find_doctor_by_user example_db ''u2'' =
      Some \<lparr>doc_id = ''d1'', doc_userId = ''u2'', doc_blockId = ''0xbb'', doc_verified = True,
          doc_specialization = ''ENT'', doc_licenseNumber = ''L1''\<rparr>"
    by (simp add: find_doctor_by_user_def example_db_def)
  have c: "combine (tl example_listing)
      [example_view,
       \<lparr>pv_id = ''7'', pv_issueDate = 1620000000000, pv_validTill = 1622592000000,
       pv_doctorId = None, pv_patientId = None, pv_patientName = Some ''Unknown Patient'',
       pv_doctorName = Some ''Bob'', pv_specialization = ''ENT'', pv_licenseNumber = [],
       pv_medications = [], pv_blockchainOnly = True\<rparr>]
      = tl example_listing @ [example_view]"
    by (simp add: combine_def example_listing_def example_view_def Map_has_def Map_values_def)
  have s: "sort_latest_first (tl example_listing @ [example_view]) = example_listing"
    by (simp add: sort_latest_first_def example_listing_def example_view_def)
  show ?thesis
    by (simp add: GET_prescriptions_def example_prescription_request_def requested_role_def
        truthy_def d example_chain_listing example_db_listing c s)
qed

lemma example_selected:
  "\<lparr>pr_id = ''7'', pr_doctorId = ''d1'', pr_patientId = ''p1'', pr_issueDate = 1600000000000,
     pr_validTill = 1602592000000, pr_medications = []\<rparr>
     \<in> set (selected_prescriptions example_db example_prescription_request)"
  by (simp add: selected_prescriptions_def example_prescription_request_def requested_role_def
      truthy_def find_doctor_by_user_def example_db_def)

lemma example_fetched:
  "example_view
     \<in> set (fetched_prescriptions (Returns example_contract) example_db
              example_prescription_request)"
proof -
  have d: "find_doctor_by_user example_db ''u2'' =
      Some \<lparr>doc_id = ''d1'', doc_userId = ''u2'', doc_blockId = ''0xbb'', doc_verified = True,
          doc_specialization = ''ENT'', doc_licenseNumber = ''L1''\<rparr>"
    by (simp add: find_doctor_by_user_def example_db_def)
  show ?thesis
    by (simp add: fetched_prescriptions_def example_prescription_request_def requested_role_def
        truthy_def d example_chain_listing)
qed

lemma example_session:
  "req_user example_prescription_request = Some \<lparr>su_id = ''u2''\<rparr>
     \<and> (requested_role example_prescription_request = ''doctor'' \<longrightarrow>
          find_doctor_by_user example_db (su_id \<lparr>su_id = ''u2''\<rparr>) \<noteq> None)"
  by (simp add: example_prescription_request_def find_doctor_by_user_def example_db_def)

theorem prescription_list_merged_witness:
  "GET_prescriptions (Returns example_contract) example_db example_prescription_request
       = \<lparr>res_status = 200, res_body = PrescriptionList example_listing\<rparr>
     \<and> distinct (map pv_id example_listing)
     \<and> sorted_wrt (\<lambda>a b. pv_issueDate a \<ge> pv_issueDate b) example_listing
     \<and> (\<exists>v \<in> set example_listing. pv_id v = ''7'' \<and> \<not> pv_blockchainOnly v)
     \<and> (\<exists>v \<in> set example_listing. pv_id v = ''1'' \<and> pv_blockchainOnly v)"
proof -
  note T = prescription_list_merged
    [of example_prescription_request "\<lparr>su_id = ''u2''\<rparr>" example_db "Returns example_contract"
      example_listing]
  let ?p = "\<lparr>pr_id = ''7'', pr_doctorId = ''d1'', pr_patientId = ''p1'',
     pr_issueDate = 1600000000000, pr_validTill = 1602592000000, pr_medications = []\<rparr>"
  obtain out' where g: "GET_prescriptions (Returns example_contract) example_db
      example_prescription_request = \<lparr>res_status = 200, res_body = PrescriptionList out'\<rparr>"
    using T [THEN conjunct1, THEN mp, OF example_session] by blast
  then have "PrescriptionList out' = PrescriptionList example_listing"
    using example_GET by simp
  then have 0: "GET_prescriptions (Returns example_contract) example_db
      example_prescription_request
        = \<lparr>res_status = 200, res_body = PrescriptionList example_listing\<rparr>"
    using g by simp
  note P = T [THEN conjunct2, THEN mp, OF example_GET]
  have 1: "distinct (map pv_id example_listing)" using P by blast
  have 2: "sorted_wrt (\<lambda>a b. pv_issueDate a \<ge> pv_issueDate b) example_listing"
    using P by blast
  have "\<exists>v \<in> set example_listing. pv_id v = pr_id ?p \<and> \<not> pv_blockchainOnly v"
    using P example_selected by blast
  then have 3: "\<exists>v \<in> set example_listing. pv_id v = ''7'' \<and> \<not> pv_blockchainOnly v"
    by simp
  obtain v where v: "v \<in> set example_listing" "pv_id v = pv_id example_view"
    using P example_fetched by blast
  have "v \<in> set (fetched_prescriptions (Returns example_contract) example_db
              example_prescription_request)"
  proof -
    have "v \<in> db_view example_db
                ` set (selected_prescriptions example_db example_prescription_request)
          \<or> (v \<in> set (fetched_prescriptions (Returns example_contract) example_db
              example_prescription_request)
              \<and> pv_id v \<notin> pr_id
                ` set (selected_prescriptions example_db example_prescription_request))"
      using P v(1) by blast
    moreover have "\<not> pv_blockchainOnly v \<longrightarrow> pv_id v \<noteq> ''1''"
      using v(1) by (auto simp: example_listing_def example_view_def)
    moreover have "pv_id v = ''1''" using v(2) by (simp add: example_view_def)
    ultimately show ?thesis using db_view_fields by auto
  qed
  then have "pv_blockchainOnly v" by (rule fetched_flag)
  then have 4: "\<exists>v \<in> set example_listing. pv_id v = ''1'' \<and> pv_blockchainOnly v"
    using v by (auto simp: example_view_def)
  from 0 1 2 3 4 show ?thesis by blast
qed

section \<open>Properties of the doctor registration form\<close>

lemma onSubmit_catch_failed_post:
  assumes "svc_post_doctor svc db data userId = (result, db)" and "result \<noteq> Resolved 200"
  shows "out_chain (onSubmit_catch svc userId data error chain db effects) = chain
       \<and> out_db (onSubmit_catch svc userId data error chain db effects) = db
       \<and> filter is_chain_write (out_effects (onSubmit_catch svc userId data error chain db effects))
           = filter is_chain_write effects
       \<and> filter is_router_push (out_effects (onSubmit_catch svc userId data error chain db effects))
           = filter is_router_push effects
       \<and> (\<exists>t. last (out_effects (onSubmit_catch svc userId data error chain db effects))
                 = ShowToast t \<and> toast_variant t = Destructive)"
proof (cases result)
  case (Resolved status)
  then have "status \<noteq> 200" using assms(2) by simp
  then show ?thesis
    using assms(1) Resolved by (simp add: onSubmit_catch_def Let_def)
next
  case (Rejected dbError)
  then show ?thesis
    using assms(1) by (simp add: onSubmit_catch_def Let_def)
qed

text \<open>
  C5. When the contract accepts \<open>registerDoctor\<close> and the database registration then
  fails (the request is rejected or answered with a status other than 200, and the
  database is left as it was), \<open>onSubmit\<close> ends with the contract in the state after the
  registration and the database unchanged: the two stores disagree. The handler has
  written to the contract exactly once, so it neither reverts nor retries that write; it
  reports the failure in a destructive toast and does not navigate.
\<close>

theorem registration_not_compensated:
  assumes "svc_init svc (fd_blockId data) = None"
    and "svc_registerDoctor svc chain (fd_blockId data) (fd_name data) (fd_specialty data)
           (fd_fees data) = Inr chain'"
    and "svc_post_doctor svc db data userId = (result, db)"
    and "result \<noteq> Resolved 200"
  shows "out_chain (onSubmit svc userId data chain db) = chain'
       \<and> out_db (onSubmit svc userId data chain db) = db
       \<and> filter is_chain_write (out_effects (onSubmit svc userId data chain db))
           = [ContractRegisterDoctor (fd_name data) (fd_specialty data) (fd_fees data)]
       \<and> filter is_router_push (out_effects (onSubmit svc userId data chain db)) = []
       \<and> (\<exists>t. last (out_effects (onSubmit svc userId data chain db)) = ShowToast t
                \<and> toast_variant t = Destructive)"
proof (cases result)
  case (Resolved status)
  then have "status \<noteq> 200" using assms(4) by simp
  then show ?thesis
    using assms(1,2,3) Resolved by (simp add: onSubmit_def)
next
  case (Rejected error)
  let ?effects = "[ContractInit (fd_blockId data),
      ContractRegisterDoctor (fd_name data) (fd_specialty data) (fd_fees data),
      PostUsersDoctor userId]"
  have run: "onSubmit svc userId data chain db
      = onSubmit_catch svc userId data error chain' db ?effects"
    using assms(1,2,3) Rejected by (simp add: onSubmit_def)
  show ?thesis
    unfolding run
    using onSubmit_catch_failed_post [OF assms(3,4), of error chain' ?effects]
    by simp
qed

theorem registration_not_compensated_witness:
  "out_chain (onSubmit example_services ''u2'' example_form [] []) = [''0xbb'']
     \<and> out_db (onSubmit example_services ''u2'' example_form [] []) = []
     \<and> filter is_chain_write (out_effects (onSubmit example_services ''u2'' example_form [] []))
         = [ContractRegisterDoctor ''Bob Brown'' ''ENT'' 5]
     \<and> filter is_router_push (out_effects (onSubmit example_services ''u2'' example_form [] []))
         = []
     \<and> (\<exists>t. last (out_effects (onSubmit example_services ''u2'' example_form [] []))
              = ShowToast t \<and> toast_variant t = Destructive)"
  using registration_not_compensated
    [of example_services example_form "[]" "[''0xbb'']" "[]" "''u2''"
      "Rejected \<lparr>err_message = Some ''Request failed with status code 500'',
                  err_data_message = None\<rparr>"]
  by (simp add: example_services_def example_form_def)

end
